theory Spec2Isabelle
  imports Complex_Main "HOL-Library.Sublist" "HOL-Library.Multiset"
begin

section \<open>Python values and built-ins used by the debate agent\<close>

text \<open>
  Python strings are modelled as \<open>string\<close> (lists of 8-bit characters), Python's
  unbounded integers as \<open>int\<close>, and Python floats as \<open>real\<close>: the confidence
  arithmetic is exact here, IEEE rounding is not part of the model.
  A dictionary whose keys are strings is an association list, so that the insertion
  order (which Python's rendering of a dictionary shows) is kept.
\<close>

datatype pyval =
    PNone
  | PBool bool
  | PInt int
  | PFloat real
  | PStr string
  | PList "pyval list"
  | PDict "(string \<times> pyval) list"

type_synonym pydict = "(string \<times> pyval) list"

text \<open>\<open>d.get(key, default)\<close> on a dictionary.\<close>

definition dict_get :: "pydict \<Rightarrow> string \<Rightarrow> pyval \<Rightarrow> pyval" where
  "dict_get d k dflt = (case map_of d k of None \<Rightarrow> dflt | Some v \<Rightarrow> v)"

text \<open>\<open>sub in text\<close> on strings: \<open>sub\<close> occurs as a contiguous substring.\<close>

definition str_in :: "string \<Rightarrow> string \<Rightarrow> bool" where
  "str_in sub text = sublist sub text"

definition ascii_uppercase :: string where
  "ascii_uppercase = ''ABCDEFGHIJKLMNOPQRSTUVWXYZ''"

definition ascii_lowercase :: string where
  "ascii_lowercase = ''abcdefghijklmnopqrstuvwxyz''"

text \<open>
  \<open>str.lower()\<close> and \<open>str.upper()\<close>, on ASCII: the letters \<open>A\<close> to \<open>Z\<close> are
  exchanged with \<open>a\<close> to \<open>z\<close>, every other character is unchanged.
\<close>

definition lower_char :: "char \<Rightarrow> char" where
  "lower_char c = (case map_of (zip ascii_uppercase ascii_lowercase) c of None \<Rightarrow> c | Some d \<Rightarrow> d)"

definition upper_char :: "char \<Rightarrow> char" where
  "upper_char c = (case map_of (zip ascii_lowercase ascii_uppercase) c of None \<Rightarrow> c | Some d \<Rightarrow> d)"

definition lower :: "string \<Rightarrow> string" where
  "lower s = map lower_char s"

definition upper :: "string \<Rightarrow> string" where
  "upper s = map upper_char s"

text \<open>\<open>sep.join(xs)\<close>.\<close>

fun join :: "string \<Rightarrow> string list \<Rightarrow> string" where
  "join sep [] = []"
| "join sep [x] = x"
| "join sep (x # y # ys) = x @ sep @ join sep (y # ys)"

text \<open>\<open>str(n)\<close> on an integer: decimal digits, with a minus sign when negative.\<close>

definition digit_char :: "nat \<Rightarrow> char" where
  "digit_char d = ''0123456789'' ! d"

function str_nat :: "nat \<Rightarrow> string" where
  "str_nat n = (if n < 10 then [digit_char n] else str_nat (n div 10) @ [digit_char (n mod 10)])"
  by pat_completeness auto
termination
  by (relation "measure id") auto

definition str_int :: "int \<Rightarrow> string" where
  "str_int i = (if i < 0 then CHR ''-'' # str_nat (nat (- i)) else str_nat (nat i))"

section \<open>Data model\<close>

text \<open>
  An entry of the transcript is the dictionary
  \<open>{"round": ..., "perspective": ..., "arguments": ...}\<close> that \<open>_conduct_debate\<close>
  appends; its three keys are the fields of a record (\<open>round\<close> is \<open>round_no\<close> here).
\<close>

record round_entry =
  round_no :: int
  perspective :: string
  arguments :: string

text \<open>An element of \<open>self.roles\<close>.\<close>

record role_info =
  name :: string
  description :: string

section \<open>Stance extraction\<close>

text \<open>The loop of \<open>_extract_stances\<close>, with the list \<open>stances\<close> it appends to.\<close>

fun extract_stances_loop :: "round_entry list \<Rightarrow> string list \<Rightarrow> string list" where
  "extract_stances_loop [] stances = stances"
| "extract_stances_loop (r # round_data) stances =
     (let text = lower (arguments r) in
      if str_in ''bullish'' text then extract_stances_loop round_data (stances @ [''bullish''])
      else if str_in ''bearish'' text then extract_stances_loop round_data (stances @ [''bearish''])
      else extract_stances_loop round_data (stances @ [''neutral'']))"

definition extract_stances :: "round_entry list \<Rightarrow> string list" where
  "extract_stances round_data = extract_stances_loop round_data []"

section \<open>Confidence score\<close>

text \<open>The local helper \<open>check_pairwise\<close> of \<open>_calculate_confidence\<close>.\<close>

definition check_pairwise :: "string \<Rightarrow> string \<Rightarrow> int \<times> int" where
  "check_pairwise text_a text_b =
     (let local_agreements = 0;
          local_disagreements = 0;
          local_agreements =
            (if str_in ''mild increase'' text_a \<and> str_in ''mild increase'' text_b
             then local_agreements + 1 else local_agreements);
          (local_agreements, local_disagreements) =
            (if str_in ''low risk'' text_a \<and> str_in ''low risk'' text_b
             then (local_agreements + 1, local_disagreements)
             else if (str_in ''low risk'' text_a \<and> str_in ''high risk'' text_b)
                   \<or> (str_in ''high risk'' text_a \<and> str_in ''low risk'' text_b)
             then (local_agreements, local_disagreements + 1)
             else (local_agreements, local_disagreements));
          local_disagreements =
            (if str_in ''downward pressure'' text_a \<and> str_in ''upward momentum'' text_b
             then local_disagreements + 1
             else if str_in ''downward pressure'' text_b \<and> str_in ''upward momentum'' text_a
             then local_disagreements + 1
             else local_disagreements)
      in (local_agreements, local_disagreements))"

text \<open>
  \<open>_calculate_confidence\<close> up to, and without, its last assignment: the value of the
  local variable \<open>confidence\<close> just before it is clamped.
\<close>

definition confidence_before_clamp :: "round_entry list \<Rightarrow> pydict \<Rightarrow> real" where
  "confidence_before_clamp debate_rounds market_data =
     (let confidence = 0.5;
          trend = dict_get market_data ''trend'' (PStr ''flat'');
          confidence =
            (if trend = PStr ''up'' then confidence + 0.1
             else if trend = PStr ''down'' then confidence - 0.05
             else confidence - 0.02);
          fundamental_args = map arguments (filter (\<lambda>r. perspective r = ''fundamental'') debate_rounds);
          technical_args = map arguments (filter (\<lambda>r. perspective r = ''technical'') debate_rounds);
          risk_args = map arguments (filter (\<lambda>r. perspective r = ''risk'') debate_rounds);
          all_fundamental_text = lower (join '' '' fundamental_args);
          all_technical_text = lower (join '' '' technical_args);
          all_risk_text = lower (join '' '' risk_args);
          agreements = 0;
          disagreements = 0;
          (a, d) = check_pairwise all_fundamental_text all_technical_text;
          agreements = agreements + a;
          disagreements = disagreements + d;
          (a, d) = check_pairwise all_fundamental_text all_risk_text;
          agreements = agreements + a;
          disagreements = disagreements + d;
          (a, d) = check_pairwise all_technical_text all_risk_text;
          agreements = agreements + a;
          disagreements = disagreements + d;
          confidence = confidence + real_of_int agreements * 0.05;
          confidence = confidence - real_of_int disagreements * 0.05;
          confidence =
            (if (str_in ''moving average crossing above price'' all_fundamental_text
                 \<and> str_in ''moving average crossing above price'' all_technical_text)
              \<or> (str_in ''moving average crossing above price'' all_fundamental_text
                 \<and> str_in ''moving average crossing above price'' all_risk_text)
              \<or> (str_in ''moving average crossing above price'' all_technical_text
                 \<and> str_in ''moving average crossing above price'' all_risk_text)
             then confidence + 0.03 else confidence)
      in confidence)"

definition calculate_confidence :: "round_entry list \<Rightarrow> pydict \<Rightarrow> real" where
  "calculate_confidence debate_rounds market_data =
     max 0.0 (min 1.0 (confidence_before_clamp debate_rounds market_data))"

section \<open>Formatting the transcript and the memory\<close>

text \<open>The loop of \<open>_format_previous_rounds\<close>, with the list \<open>formatted_rounds\<close>.\<close>

fun format_rounds_loop :: "round_entry list \<Rightarrow> string list \<Rightarrow> string list" where
  "format_rounds_loop [] formatted_rounds = formatted_rounds"
| "format_rounds_loop (round_data # debate_rounds) formatted_rounds =
     format_rounds_loop debate_rounds
       (formatted_rounds @
         [''Round '' @ str_int (round_no round_data) @ '' ('' @ upper (perspective round_data)
            @ ''):\<newline>'' @ arguments round_data @ ''\<newline>''])"

definition format_previous_rounds :: "round_entry list \<Rightarrow> string" where
  "format_previous_rounds debate_rounds =
     (if debate_rounds = [] then ''No previous arguments.''
      else join ''\<newline>'' (format_rounds_loop debate_rounds []))"

section \<open>The agent, its collaborators and its errors\<close>

text \<open>
  The fields that \<open>__init__\<close> sets on a \<open>DebateAgent\<close>. The field
  \<open>self.debate_rounds\<close> is \<open>self_debate_rounds\<close> here, since \<open>debate_rounds\<close> is
  also the name of the transcript in the methods.
\<close>

record debate_agent =
  self_debate_rounds :: nat
  roles :: "role_info list"
  mid_term_memory :: "string list"
  short_term_memory :: "string list"

text \<open>
  An exception that ends a call: \<open>AttributeError\<close> is raised by the code itself (see
  \<open>analyze\<close>), \<open>External\<close> is whatever a collaborator raised.
\<close>

datatype error = AttributeError | External string

datatype result_value =
    RStr string
  | RRounds "round_entry list"
  | RVal pyval
  | RFloat real

type_synonym analysis_result = "(string \<times> result_value) list"

text \<open>
  The collaborators of the agent that are not part of it, over a state \<open>'g\<close> of the
  outside world that every call may read and change, and where every call may raise:
  \<^item> \<open>create_prompt role content\<close> is \<open>BaseAgent._create_prompt\<close>, the call of the
    text generator;
  \<^item> \<open>summarize_speeches texts\<close> is the summarizer's call of the same name;
  \<^item> \<open>save_to_memory result\<close> is \<open>BaseAgent.save_to_memory\<close>;
  \<^item> \<open>py_str v\<close> is the text that an f-string gives for the value \<open>v\<close>.
\<close>

record 'g env =
  create_prompt :: "'g \<Rightarrow> string \<Rightarrow> string \<Rightarrow> (error + string) \<times> 'g"
  summarize_speeches :: "'g \<Rightarrow> string list \<Rightarrow> (error + string) \<times> 'g"
  save_to_memory :: "'g \<Rightarrow> analysis_result \<Rightarrow> (error + unit) \<times> 'g"
  py_str :: "pyval \<Rightarrow> string"

text \<open>
  Modelled from the spec: \<open>MemorySummaryAgent.add_to_short_term_memory\<close> is not among
  the sources; the specification says that promoting a summary to short-term memory
  replaces the container's single slot. The Python call changes the list it is given;
  here the new list is returned.
\<close>

definition add_to_short_term_memory :: "string list \<Rightarrow> string \<Rightarrow> string list" where
  "add_to_short_term_memory memory summary = [summary]"

text \<open>
  Modelled from the spec: \<open>MemorySummaryAgent.add_to_mid_term_memory\<close> is not among the
  sources; the specification says that promoting a summary to mid-term memory appends it
  to the ordered sequence.
\<close>

definition add_to_mid_term_memory :: "string list \<Rightarrow> string \<Rightarrow> string list" where
  "add_to_mid_term_memory memory summary = memory @ [summary]"

definition fundamental_description :: string where
  "fundamental_description =
     ''You are a Fundamental Analyst focusing on macroeconomic indicators,\<newline>''
       @ ''                                    company financials, sector trends, and other fundamental factors that\<newline>''
       @ ''                                    influence the asset's intrinsic value. \<newline>''
       @ ''                                    Your goal is to provide arguments about the proposed action from a fundamental perspective.\<newline>''
       @ ''                                    You can choose your stance (Bullish or Bearish) freely each round.\<newline>''
       @ ''                                    Argue briefly and directly.''"

definition technical_description :: string where
  "technical_description =
     ''You are a Technical Analyst focusing on price trends, chart patterns,\<newline>''
       @ ''                                    technical indicators, and volume analysis.\<newline>''
       @ ''                                    Your goal is to provide arguments about the proposed action from a technical perspective.\<newline>''
       @ ''                                    You can choose your stance (Bullish or Bearish) freely each round.\<newline>''
       @ ''                                    Argue briefly and directly.''"

definition risk_description :: string where
  "risk_description =
     ''You are a Risk Analyst focusing on potential risks, uncertainties, \<newline>''
       @ ''                                    volatility, regulatory changes, and market sentiment shifts.\<newline>''
       @ ''                                    Your goal is to provide arguments about the proposed action from a risk management perspective.\<newline>''
       @ ''                                    You can choose your stance (Bullish or Bearish) freely each round.\<newline>''
       @ ''                                    Argue briefly and directly.''"

text \<open>
  \<open>__init__\<close>: the agent as constructed. The configuration only reaches the
  collaborators, which are in the environment.
\<close>

definition debate_agent_init :: debate_agent where
  "debate_agent_init =
     \<lparr> self_debate_rounds = 3,
       roles =
         [\<lparr> name = ''fundamental'', description = fundamental_description \<rparr>,
          \<lparr> name = ''technical'', description = technical_description \<rparr>,
          \<lparr> name = ''risk'', description = risk_description \<rparr>],
       mid_term_memory = [],
       short_term_memory = [] \<rparr>"

definition get_mid_term_info :: "debate_agent \<Rightarrow> string" where
  "get_mid_term_info self =
     (if mid_term_memory self = [] then ''No mid-term memory recorded.''
      else join '' | '' (mid_term_memory self))"

definition get_short_term_info :: "debate_agent \<Rightarrow> string" where
  "get_short_term_info self =
     (if short_term_memory self = [] then ''No short-term memory recorded.''
      else last (short_term_memory self))"

section \<open>The debate\<close>

text \<open>The role and the content of the prompt of one persona in one round.\<close>

definition debate_role :: "nat \<Rightarrow> role_info \<Rightarrow> string" where
  "debate_role round_num role_info =
     (if round_num = 0 then description role_info
      else ''You are the '' @ name role_info
        @ '' analyst. Continue focusing on your domain. Remember you can choose Bullish or Bearish freely.'')"

definition debate_content ::
  "'g env \<Rightarrow> debate_agent \<Rightarrow> pyval \<Rightarrow> pyval \<Rightarrow> nat \<Rightarrow> string \<Rightarrow> round_entry list \<Rightarrow> string" where
  "debate_content E self market_data proposed_action round_num perspective_name debate_rounds =
     ''\<newline>''
       @ ''                Round ''
       @ str_int (int round_num + 1)
       @ '' of debate (''
       @ upper perspective_name
       @ ''):\<newline>''
       @ ''                \<newline>''
       @ ''                Market Data:\<newline>''
       @ ''                ''
       @ py_str E market_data
       @ ''\<newline>''
       @ ''\<newline>''
       @ ''                Proposed Action:\<newline>''
       @ ''                ''
       @ py_str E proposed_action
       @ ''\<newline>''
       @ ''\<newline>''
       @ ''                Mid-term Memory (accumulated):\<newline>''
       @ ''                ''
       @ get_mid_term_info self
       @ ''\<newline>''
       @ ''\<newline>''
       @ ''                Short-term Memory (last round only):\<newline>''
       @ ''                ''
       @ get_short_term_info self
       @ ''\<newline>''
       @ ''\<newline>''
       @ ''                Previous Arguments:\<newline>''
       @ ''                ''
       @ format_previous_rounds debate_rounds
       @ ''\<newline>''
       @ ''\<newline>''
       @ ''                Instructions:\<newline>''
       @ ''                - At the start of your argument, explicitly state your stance for this round as either Bullish or Bearish.\<newline>''
       @ ''                - Present your viewpoint (4-5 sentences).\<newline>''
       @ ''                - You can react to previous arguments if they exist, or establish a stance on the action.\<newline>''
       @ ''                - If no differing opinions are found, you may also choose a stance and clarify it.\<newline>''
       @ ''                - Keep it concise and debate-like.\<newline>''
       @ ''                ''"

text \<open>
  The inner loop of \<open>_conduct_debate\<close> over \<open>self.roles\<close>, with the list
  \<open>round_results\<close> it appends to. A generation that raises ends the loop with the error.
\<close>

fun role_loop ::
  "'g env \<Rightarrow> debate_agent \<Rightarrow> pyval \<Rightarrow> pyval \<Rightarrow> nat \<Rightarrow> round_entry list
     \<Rightarrow> role_info list \<Rightarrow> round_entry list \<Rightarrow> 'g \<Rightarrow> (error + round_entry list) \<times> 'g" where
  "role_loop E self market_data proposed_action round_num debate_rounds [] round_results g =
     (Inr round_results, g)"
| "role_loop E self market_data proposed_action round_num debate_rounds (role_info # rest) round_results g =
     (let role = debate_role round_num role_info;
          perspective_name = name role_info;
          content = debate_content E self market_data proposed_action round_num perspective_name debate_rounds
      in case create_prompt E g role content of
           (Inl e, g') \<Rightarrow> (Inl e, g')
         | (Inr response, g') \<Rightarrow>
             role_loop E self market_data proposed_action round_num debate_rounds rest
               (round_results @
                  [\<lparr> round_no = int round_num + 1, perspective = perspective_name, arguments = response \<rparr>])
               g')"

text \<open>
  How one pass through the body of the outer loop ends: at \<open>break\<close>, or at the end of the
  body; with the transcript \<open>debate_rounds\<close> and, at the end of the body, the local
  variable \<open>round_summary\<close>.
\<close>

datatype round_status =
    Break "round_entry list"
  | Continue "round_entry list" string

text \<open>
  The body of the outer loop of \<open>_conduct_debate\<close>. The read \<open>round_results[-1]\<close> is
  only reached when the stances have two distinct elements, so \<open>round_results\<close> is not
  empty there.
\<close>

definition debate_round ::
  "'g env \<Rightarrow> pyval \<Rightarrow> pyval \<Rightarrow> nat \<Rightarrow> round_entry list \<Rightarrow> debate_agent \<Rightarrow> 'g
     \<Rightarrow> (error + round_status) \<times> debate_agent \<times> 'g" where
  "debate_round E market_data proposed_action round_num debate_rounds self g =
     (case role_loop E self market_data proposed_action round_num debate_rounds (roles self) [] g of
        (Inl e, g1) \<Rightarrow> (Inl e, self, g1)
      | (Inr round_results, g1) \<Rightarrow>
          (let debate_rounds = debate_rounds @ round_results;
               stances = extract_stances round_results
           in if card (set stances) \<le> 1 then (Inr (Break debate_rounds), self, g1)
              else
                (let last_round_num = round_no (last round_results);
                     this_round_data =
                       map arguments (filter (\<lambda>r. round_no r = last_round_num) round_results)
                 in case summarize_speeches E g1 this_round_data of
                      (Inl e, g2) \<Rightarrow> (Inl e, self, g2)
                    | (Inr round_summary, g2) \<Rightarrow>
                        (let self = self\<lparr> short_term_memory := [] \<rparr>;
                             self = self\<lparr> short_term_memory :=
                                      add_to_short_term_memory (short_term_memory self) round_summary \<rparr>;
                             self = self\<lparr> mid_term_memory :=
                                      add_to_mid_term_memory (mid_term_memory self) round_summary \<rparr>
                         in (Inr (Continue debate_rounds round_summary), self, g2)))))"

text \<open>The outer loop of \<open>_conduct_debate\<close>, over the round numbers still to run.\<close>

fun debate_loop ::
  "'g env \<Rightarrow> pyval \<Rightarrow> pyval \<Rightarrow> nat list \<Rightarrow> round_entry list \<Rightarrow> debate_agent \<Rightarrow> 'g
     \<Rightarrow> (error + round_entry list) \<times> debate_agent \<times> 'g" where
  "debate_loop E market_data proposed_action [] debate_rounds self g = (Inr debate_rounds, self, g)"
| "debate_loop E market_data proposed_action (round_num # rest) debate_rounds self g =
     (case debate_round E market_data proposed_action round_num debate_rounds self g of
        (Inl e, self', g') \<Rightarrow> (Inl e, self', g')
      | (Inr (Break debate_rounds'), self', g') \<Rightarrow> (Inr debate_rounds', self', g')
      | (Inr (Continue debate_rounds' round_summary), self', g') \<Rightarrow>
          debate_loop E market_data proposed_action rest debate_rounds' self' g')"

definition conduct_debate ::
  "'g env \<Rightarrow> pyval \<Rightarrow> pyval \<Rightarrow> debate_agent \<Rightarrow> 'g
     \<Rightarrow> (error + round_entry list) \<times> debate_agent \<times> 'g" where
  "conduct_debate E market_data proposed_action self g =
     debate_loop E market_data proposed_action [0..<self_debate_rounds self] [] self g"

section \<open>Synthesis and the top-level call\<close>

definition synthesize_role :: string where
  "synthesize_role =
     ''You are a senior market strategist tasked with synthesizing insights \<newline>''
       @ ''                    from three specialized analysts (fundamental, technical, and risk). \<newline>''
       @ ''                    Combine their perspectives into a balanced and actionable final analysis.''"

definition synthesize_content :: "debate_agent \<Rightarrow> round_entry list \<Rightarrow> string" where
  "synthesize_content self debate_rounds =
     ''\<newline>''
       @ ''        Synthesize the following debate rounds into a final analysis:\<newline>''
       @ ''\<newline>''
       @ ''        Mid-term Memory (accumulated from all rounds):\<newline>''
       @ ''        ''
       @ get_mid_term_info self
       @ ''\<newline>''
       @ ''\<newline>''
       @ ''        Short-term Memory (just last round):\<newline>''
       @ ''        ''
       @ get_short_term_info self
       @ ''\<newline>''
       @ ''        \<newline>''
       @ ''        Debate History:\<newline>''
       @ ''        ''
       @ format_previous_rounds debate_rounds
       @ ''\<newline>''
       @ ''        \<newline>''
       @ ''        Provide a balanced analysis addressing:\<newline>''
       @ ''        1. Key Points of Agreement\<newline>''
       @ ''        2. Major Points of Contention\<newline>''
       @ ''        3. Risk-Reward Assessment\<newline>''
       @ ''        4. Final Recommendation\<newline>''
       @ ''        ''"

definition synthesize_debate ::
  "'g env \<Rightarrow> round_entry list \<Rightarrow> debate_agent \<Rightarrow> 'g \<Rightarrow> (error + string) \<times> 'g" where
  "synthesize_debate E debate_rounds self g =
     (let mid_term_info = get_mid_term_info self;
          short_term_info = get_short_term_info self;
          role = synthesize_role;
          content = synthesize_content self debate_rounds
      in create_prompt E g role content)"

text \<open>
  \<open>analyze\<close>. The entries of the result are built in the order of the dictionary
  display: the synthesis is called first, then \<open>_calculate_confidence\<close>, whose
  \<open>market_data.get\<close> raises \<open>AttributeError\<close> when \<open>market_data\<close> is not a
  dictionary. Nothing in \<open>analyze\<close> assigns to the two memory fields.
\<close>

definition analyze ::
  "'g env \<Rightarrow> pydict \<Rightarrow> debate_agent \<Rightarrow> 'g \<Rightarrow> (error + analysis_result) \<times> debate_agent \<times> 'g" where
  "analyze E data self g =
     (let market_data = dict_get data ''market_data'' (PDict []);
          proposed_action = dict_get data ''proposed_action'' (PDict [])
      in case conduct_debate E market_data proposed_action self g of
           (Inl e, self1, g1) \<Rightarrow> (Inl e, self1, g1)
         | (Inr debate_results, self1, g1) \<Rightarrow>
             (case synthesize_debate E debate_results self1 g1 of
                (Inl e, g2) \<Rightarrow> (Inl e, self1, g2)
              | (Inr final_analysis, g2) \<Rightarrow>
                  (case market_data of
                     PDict md \<Rightarrow>
                       (let analysis_result =
                              [(''debate_analysis'', RStr final_analysis),
                               (''debate_rounds'', RRounds debate_results),
                               (''timestamp'', RVal (dict_get data ''timestamp'' PNone)),
                               (''confidence_score'', RFloat (calculate_confidence debate_results md))]
                        in case save_to_memory E g2 analysis_result of
                             (Inl e, g3) \<Rightarrow> (Inl e, self1, g3)
                           | (Inr u, g3) \<Rightarrow> (Inr analysis_result, self1, g3))
                   | _ \<Rightarrow> (Inl AttributeError, self1, g2))))"

section \<open>The specification's wording\<close>

text \<open>
  The definitions of this section follow the words of the specification, not the code;
  the theorems below compare them with the functions above.
\<close>

text \<open>
  The stance of one argument text: lower-cased; \<open>bullish\<close> if that word occurs,
  else \<open>bearish\<close> if that word occurs, else \<open>neutral\<close>.
\<close>

definition spec_stance :: "string \<Rightarrow> string" where
  "spec_stance text =
     (if str_in ''bullish'' (lower text) then ''bullish''
      else if str_in ''bearish'' (lower text) then ''bearish''
      else ''neutral'')"

text \<open>
  The text of one persona: the arguments of its entries, in transcript order, joined by
  single spaces and lower-cased.
\<close>

definition persona_text :: "round_entry list \<Rightarrow> string \<Rightarrow> string" where
  "persona_text transcript p =
     lower (join '' '' (map arguments (filter (\<lambda>r. perspective r = p) transcript)))"

text \<open>
  The trend adjustment: \<open>up\<close> adds 0.10, \<open>down\<close> subtracts 0.05, anything else,
  and a missing key, subtracts 0.02.
\<close>

definition spec_trend_adjustment :: "pydict \<Rightarrow> real" where
  "spec_trend_adjustment market_data =
     (case map_of market_data ''trend'' of
        None \<Rightarrow> - 0.02
      | Some v \<Rightarrow> (if v = PStr ''up'' then 0.10 else if v = PStr ''down'' then - 0.05 else - 0.02))"

text \<open>
  The signals of one pair of texts: an agreement when both contain \<open>mild increase\<close>,
  an agreement when both contain \<open>low risk\<close>; a disagreement when that is not the case
  and one contains \<open>low risk\<close> and the other \<open>high risk\<close>, a disagreement when one
  contains \<open>downward pressure\<close> and the other \<open>upward momentum\<close>.
\<close>

definition spec_pair_agreements :: "string \<Rightarrow> string \<Rightarrow> int" where
  "spec_pair_agreements text_a text_b =
     of_bool (str_in ''mild increase'' text_a \<and> str_in ''mild increase'' text_b)
     + of_bool (str_in ''low risk'' text_a \<and> str_in ''low risk'' text_b)"

definition spec_pair_disagreements :: "string \<Rightarrow> string \<Rightarrow> int" where
  "spec_pair_disagreements text_a text_b =
     of_bool (\<not> (str_in ''low risk'' text_a \<and> str_in ''low risk'' text_b)
              \<and> ((str_in ''low risk'' text_a \<and> str_in ''high risk'' text_b)
                 \<or> (str_in ''high risk'' text_a \<and> str_in ''low risk'' text_b)))
     + of_bool ((str_in ''downward pressure'' text_a \<and> str_in ''upward momentum'' text_b)
               \<or> (str_in ''downward pressure'' text_b \<and> str_in ''upward momentum'' text_a))"

text \<open>
  The sums of what \<open>check_pairwise\<close> returns on the three pairs of personas.
\<close>

definition total_agreements :: "round_entry list \<Rightarrow> int" where
  "total_agreements transcript =
     fst (check_pairwise (persona_text transcript ''fundamental'') (persona_text transcript ''technical''))
     + fst (check_pairwise (persona_text transcript ''fundamental'') (persona_text transcript ''risk''))
     + fst (check_pairwise (persona_text transcript ''technical'') (persona_text transcript ''risk''))"

definition total_disagreements :: "round_entry list \<Rightarrow> int" where
  "total_disagreements transcript =
     snd (check_pairwise (persona_text transcript ''fundamental'') (persona_text transcript ''technical''))
     + snd (check_pairwise (persona_text transcript ''fundamental'') (persona_text transcript ''risk''))
     + snd (check_pairwise (persona_text transcript ''technical'') (persona_text transcript ''risk''))"

text \<open>
  The bonus of 0.03, given once, when the phrase occurs in at least two of the three
  texts.
\<close>

definition spec_crossing_bonus :: "round_entry list \<Rightarrow> real" where
  "spec_crossing_bonus transcript =
     (if 2 \<le> length (filter (\<lambda>p. str_in ''moving average crossing above price'' (persona_text transcript p))
                     [''fundamental'', ''technical'', ''risk''])
      then 0.03 else 0)"

text \<open>
  The rendering of one entry of the transcript.
\<close>

definition spec_render_entry :: "round_entry \<Rightarrow> string" where
  "spec_render_entry r =
     ''Round '' @ str_int (round_no r) @ '' ('' @ upper (perspective r) @ ''):\<newline>''
       @ arguments r @ ''\<newline>''"

text \<open>
  \<open>unconverged_rounds E market_data proposed_action k summaries start end\<close>: from the
  transcript, agent and world of \<open>start\<close>, the body of the debate loop has run for the
  round numbers \<open>0\<close> to \<open>k - 1\<close>, each time to its end (no error, no convergence),
  with the round summaries \<open>summaries\<close>, and has reached \<open>end\<close>.
\<close>

inductive unconverged_rounds ::
  "'g env \<Rightarrow> pyval \<Rightarrow> pyval \<Rightarrow> nat \<Rightarrow> string list
     \<Rightarrow> round_entry list \<times> debate_agent \<times> 'g \<Rightarrow> round_entry list \<times> debate_agent \<times> 'g \<Rightarrow> bool"
  for E :: "'g env" and market_data :: pyval and proposed_action :: pyval
where
  no_round: "unconverged_rounds E market_data proposed_action 0 [] start start"
| next_round:
    "unconverged_rounds E market_data proposed_action k summaries start (debate_rounds, self, g)
     \<Longrightarrow> debate_round E market_data proposed_action k debate_rounds self g
           = (Inr (Continue debate_rounds' round_summary), self', g')
     \<Longrightarrow> unconverged_rounds E market_data proposed_action (Suc k) (summaries @ [round_summary])
           start (debate_rounds', self', g')"

section \<open>An example environment\<close>

text \<open>
  A text generator that answers by the number of the call (the world is the number of
  generations so far), a summarizer that names the call it precedes, and a run of
  \<open>analyze\<close> in this environment: two rounds without convergence, then a third round
  in which the three personas are bullish.
\<close>

definition demo_response :: "nat \<Rightarrow> string" where
  "demo_response g =
     (if g mod 10 = 1 \<or> g mod 10 = 5 then ''Bearish.''
      else if g mod 10 = 2 then ''Undecided.''
      else ''Bullish.'')"

definition demo_env :: "nat env" where
  "demo_env =
     \<lparr> create_prompt = (\<lambda>g role content. (Inr (demo_response g), g + 1)),
       summarize_speeches = (\<lambda>g texts. (Inr (''summary before call '' @ str_nat g), g)),
       save_to_memory = (\<lambda>g result. (Inr (), g)),
       py_str = (\<lambda>v. ''{}'') \<rparr>"

definition demo_entry :: "int \<Rightarrow> string \<Rightarrow> nat \<Rightarrow> round_entry" where
  "demo_entry k p g = \<lparr> round_no = k, perspective = p, arguments = demo_response g \<rparr>"

definition demo_round :: "int \<Rightarrow> nat \<Rightarrow> round_entry list" where
  "demo_round k g =
     [demo_entry k ''fundamental'' g, demo_entry k ''technical'' (g + 1), demo_entry k ''risk'' (g + 2)]"

definition demo_data :: pydict where
  "demo_data =
     [(''market_data'', PDict [(''trend'', PStr ''up'')]),
      (''proposed_action'', PDict [(''action'', PStr ''buy'')]),
      (''timestamp'', PStr ''2024-05-01T09:30:00'')]"

definition demo_transcript :: "nat \<Rightarrow> round_entry list" where
  "demo_transcript g = demo_round 1 g @ demo_round 2 (g + 3) @ demo_round 3 (g + 6)"

definition demo_agent_after :: "nat \<Rightarrow> debate_agent \<Rightarrow> debate_agent" where
  "demo_agent_after g self =
     self\<lparr> mid_term_memory := mid_term_memory self
               @ [''summary before call '' @ str_nat (g + 3), ''summary before call '' @ str_nat (g + 6)],
           short_term_memory := [''summary before call '' @ str_nat (g + 6)] \<rparr>"

definition demo_result :: "nat \<Rightarrow> analysis_result" where
  "demo_result g =
     [(''debate_analysis'', RStr (demo_response (g + 9))),
      (''debate_rounds'', RRounds (demo_transcript g)),
      (''timestamp'', RVal (PStr ''2024-05-01T09:30:00'')),
      (''confidence_score'', RFloat 0.6)]"

section \<open>Properties\<close>

lemma extract_stances_loop_acc:
  "extract_stances_loop rd acc = acc @ map (\<lambda>r. spec_stance (arguments r)) rd"
  by (induction rd arbitrary: acc) (simp_all add: spec_stance_def)

lemma check_pairwise_bool:
  "(let local_agreements = 0;
        local_disagreements = 0;
        local_agreements = (if M then local_agreements + 1 else local_agreements);
        (local_agreements, local_disagreements) =
          (if L then (local_agreements + 1, local_disagreements)
           else if H then (local_agreements, local_disagreements + 1)
           else (local_agreements, local_disagreements));
        local_disagreements =
          (if T1 then local_disagreements + 1
           else if T2 then local_disagreements + 1
           else local_disagreements)
    in (local_agreements, local_disagreements))
   = (of_bool M + of_bool L :: int, of_bool (\<not> L \<and> H) + of_bool (T1 \<or> T2) :: int)"
  by (cases M; cases L; cases H; cases T1; cases T2; simp)

lemma check_pairwise_closed:
  "check_pairwise a b = (spec_pair_agreements a b, spec_pair_disagreements a b)"
  unfolding check_pairwise_def spec_pair_agreements_def spec_pair_disagreements_def
  by (rule check_pairwise_bool)

lemma crossing_bonus_code:
  "(if (P \<and> Q) \<or> (P \<and> R) \<or> (Q \<and> R) then c + 0.03 else c) =
     c + (if 2 \<le> length (filter (\<lambda>b. b) [P, Q, R]) then 0.03 else (0::real))"
  by (cases P; cases Q; cases R; simp)

lemma spec_crossing_bonus_alt:
  "spec_crossing_bonus t =
     (if 2 \<le> length (filter (\<lambda>b. b)
          [str_in ''moving average crossing above price'' (persona_text t ''fundamental''),
           str_in ''moving average crossing above price'' (persona_text t ''technical''),
           str_in ''moving average crossing above price'' (persona_text t ''risk'')])
      then 0.03 else 0)"
  unfolding spec_crossing_bonus_def by simp

lemma trend_adjustment_code:
  "(if dict_get md ''trend'' (PStr ''flat'') = PStr ''up'' then c + 0.1
    else if dict_get md ''trend'' (PStr ''flat'') = PStr ''down'' then c - 0.05
    else c - 0.02) = c + spec_trend_adjustment md"
  by (simp add: dict_get_def spec_trend_adjustment_def split: option.splits)

lemma confidence_before_clamp_sum:
  "confidence_before_clamp t md =
     0.5 + spec_trend_adjustment md
       + (real_of_int (total_agreements t) * 0.05 - real_of_int (total_disagreements t) * 0.05)
       + spec_crossing_bonus t"
  unfolding confidence_before_clamp_def Let_def split_beta trend_adjustment_code crossing_bonus_code
    spec_crossing_bonus_alt total_agreements_def total_disagreements_def persona_text_def
  by simp

lemma of_bool_int_bounds: "0 \<le> (of_bool P :: int) \<and> (of_bool P :: int) \<le> 1"
  by simp

lemma pair_bounds:
  "0 \<le> fst (check_pairwise a b) \<and> fst (check_pairwise a b) \<le> 2
   \<and> 0 \<le> snd (check_pairwise a b) \<and> snd (check_pairwise a b) \<le> 2"
  unfolding check_pairwise_closed spec_pair_agreements_def spec_pair_disagreements_def fst_conv snd_conv
  using of_bool_int_bounds [of "str_in ''mild increase'' a \<and> str_in ''mild increase'' b"]
    of_bool_int_bounds [of "str_in ''low risk'' a \<and> str_in ''low risk'' b"]
    of_bool_int_bounds [of "\<not> (str_in ''low risk'' a \<and> str_in ''low risk'' b)
              \<and> ((str_in ''low risk'' a \<and> str_in ''high risk'' b)
                 \<or> (str_in ''high risk'' a \<and> str_in ''low risk'' b))"]
    of_bool_int_bounds [of "(str_in ''downward pressure'' a \<and> str_in ''upward momentum'' b)
               \<or> (str_in ''downward pressure'' b \<and> str_in ''upward momentum'' a)"]
  by linarith

lemma totals_bounds:
  "0 \<le> total_agreements t \<and> total_agreements t \<le> 6 \<and> 0 \<le> total_disagreements t \<and> total_disagreements t \<le> 6"
  unfolding total_agreements_def total_disagreements_def
  using pair_bounds [of "persona_text t ''fundamental''" "persona_text t ''technical''"]
    pair_bounds [of "persona_text t ''fundamental''" "persona_text t ''risk''"]
    pair_bounds [of "persona_text t ''technical''" "persona_text t ''risk''"]
  by linarith

lemma trend_bounds: "- 0.05 \<le> spec_trend_adjustment md \<and> spec_trend_adjustment md \<le> 0.10"
  by (simp add: spec_trend_adjustment_def split: option.splits)

lemma bonus_bounds: "0 \<le> spec_crossing_bonus t \<and> spec_crossing_bonus t \<le> 0.03"
  by (simp add: spec_crossing_bonus_def)

lemma before_clamp_bounds:
  "0.15 \<le> confidence_before_clamp t md \<and> confidence_before_clamp t md \<le> 0.93"
proof -
  have a: "0 \<le> real_of_int (total_agreements t)" "real_of_int (total_agreements t) \<le> 6"
    and d: "0 \<le> real_of_int (total_disagreements t)" "real_of_int (total_disagreements t) \<le> 6"
    using totals_bounds [of t] by simp_all
  show ?thesis
    unfolding confidence_before_clamp_sum
    using a d trend_bounds [of md] bonus_bounds [of t] by simp
qed

lemmas lower_eval = lower_def lower_char_def ascii_uppercase_def ascii_lowercase_def
lemmas upper_eval = upper_def upper_char_def ascii_uppercase_def ascii_lowercase_def
lemmas str_in_eval = str_in_def sublist_Cons_right

lemma spec_stance_bullish: "spec_stance s = ''bullish'' \<longleftrightarrow> str_in ''bullish'' (lower s)"
  by (simp add: spec_stance_def)

text \<open>
  Claim C7. \<open>_extract_stances\<close> returns one stance per entry, in the order of the
  entries: the stance of an entry is that of its lower-cased argument text, which is
  \<open>bullish\<close> exactly when the word \<open>bullish\<close> occurs in it, whether or not
  \<open>bearish\<close> occurs too; otherwise \<open>bearish\<close> when that word occurs, otherwise
  \<open>neutral\<close>. A text with both words is classified bullish.
\<close>

theorem extract_stances_per_entry:
  "extract_stances round_data = map (\<lambda>r. spec_stance (arguments r)) round_data
   \<and> length (extract_stances round_data) = length round_data
   \<and> (spec_stance s = ''bullish'' \<longleftrightarrow> str_in ''bullish'' (lower s))
   \<and> extract_stances
        [\<lparr> round_no = 1, perspective = ''risk'', arguments = ''Bearish on paper, yet BULLISH overall'' \<rparr>]
      = [''bullish'']"
proof -
  have a: "extract_stances round_data = map (\<lambda>r. spec_stance (arguments r)) round_data"
    by (simp add: extract_stances_def extract_stances_loop_acc)
  have b: "extract_stances
        [\<lparr> round_no = 1, perspective = ''risk'', arguments = ''Bearish on paper, yet BULLISH overall'' \<rparr>]
      = [''bullish'']"
    by (simp add: extract_stances_def extract_stances_loop_acc spec_stance_def lower_eval str_in_eval)
  show ?thesis using a b spec_stance_bullish [of s] by simp
qed

lemma persona_text_empty: "persona_text [] p = []"
  by (simp add: persona_text_def lower_def)

lemma str_in_empty: "str_in (c # cs) [] = False"
  by (simp add: str_in_def)

lemma before_clamp_empty: "confidence_before_clamp [] md = 0.5 + spec_trend_adjustment md"
  by (simp add: confidence_before_clamp_sum total_agreements_def total_disagreements_def
      spec_crossing_bonus_def persona_text_empty check_pairwise_closed spec_pair_agreements_def
      spec_pair_disagreements_def str_in_empty)

lemma pair_example:
  "check_pairwise ''the trend shows mild increase and low risk''
     ''we also see mild increase with low risk'' = (2, 0)"
  by (simp add: check_pairwise_closed spec_pair_agreements_def spec_pair_disagreements_def str_in_eval)

lemma pair_example_texts:
  "persona_text
     [\<lparr> round_no = 1, perspective = ''fundamental'', arguments = ''The trend shows mild increase and low risk'' \<rparr>,
      \<lparr> round_no = 1, perspective = ''technical'', arguments = ''We also see mild increase with low risk'' \<rparr>]
     ''fundamental'' = ''the trend shows mild increase and low risk''"
  "persona_text
     [\<lparr> round_no = 1, perspective = ''fundamental'', arguments = ''The trend shows mild increase and low risk'' \<rparr>,
      \<lparr> round_no = 1, perspective = ''technical'', arguments = ''We also see mild increase with low risk'' \<rparr>]
     ''technical'' = ''we also see mild increase with low risk''"
  "persona_text
     [\<lparr> round_no = 1, perspective = ''fundamental'', arguments = ''The trend shows mild increase and low risk'' \<rparr>,
      \<lparr> round_no = 1, perspective = ''technical'', arguments = ''We also see mild increase with low risk'' \<rparr>]
     ''risk'' = []"
  by (simp_all add: persona_text_def lower_eval)

lemma check_pairwise_empty_right: "check_pairwise a [] = (0, 0)"
  by (simp add: check_pairwise_closed spec_pair_agreements_def spec_pair_disagreements_def str_in_empty)

lemma pair_example_no_crossing:
  "\<not> str_in ''moving average crossing above price'' ''the trend shows mild increase and low risk''"
  "\<not> str_in ''moving average crossing above price'' ''we also see mild increase with low risk''"
  by (simp_all add: str_in_eval)

text \<open>
  Claim C5. \<open>check_pairwise\<close> counts, for a pair of texts, the agreements and
  disagreements of the specification (the agreement and the disagreement on risk exclude
  each other); the sums \<open>A\<close> and \<open>D\<close> over the three pairs enter the confidence as
  \<open>A * 0.05 - D * 0.05\<close>; and the two example texts give two agreements and no
  disagreement, which raises the confidence by 0.10.
\<close>

theorem check_pairwise_signals:
  "check_pairwise text_a text_b = (spec_pair_agreements text_a text_b, spec_pair_disagreements text_a text_b)
   \<and> confidence_before_clamp t md =
       0.5 + spec_trend_adjustment md
         + (real_of_int (total_agreements t) * 0.05 - real_of_int (total_disagreements t) * 0.05)
         + spec_crossing_bonus t
   \<and> check_pairwise ''the trend shows mild increase and low risk''
        ''we also see mild increase with low risk'' = (2, 0)
   \<and> confidence_before_clamp
        [\<lparr> round_no = 1, perspective = ''fundamental'', arguments = ''The trend shows mild increase and low risk'' \<rparr>,
         \<lparr> round_no = 1, perspective = ''technical'', arguments = ''We also see mild increase with low risk'' \<rparr>]
        md
      = confidence_before_clamp [] md + 0.10"
proof -
  let ?T = "[\<lparr> round_no = 1, perspective = ''fundamental'', arguments = ''The trend shows mild increase and low risk'' \<rparr>,
         \<lparr> round_no = 1, perspective = ''technical'', arguments = ''We also see mild increase with low risk'' \<rparr>]"
  have A: "total_agreements ?T = 2"
    unfolding total_agreements_def pair_example_texts pair_example check_pairwise_empty_right by simp
  have D: "total_disagreements ?T = 0"
    unfolding total_disagreements_def pair_example_texts pair_example check_pairwise_empty_right by simp
  have B: "spec_crossing_bonus ?T = 0"
    unfolding spec_crossing_bonus_alt pair_example_texts
    by (simp add: pair_example_no_crossing)
  have "confidence_before_clamp ?T md = confidence_before_clamp [] md + 0.10"
    unfolding before_clamp_empty
    unfolding confidence_before_clamp_sum A D B by simp
  then show ?thesis
    using check_pairwise_closed [of text_a text_b] confidence_before_clamp_sum [of t md] pair_example
    by simp
qed

text \<open>
  Claim C6. Over the base of 0.5, a trend \<open>up\<close> adds 0.10, \<open>down\<close> subtracts
  0.05 and any other value subtracts 0.02; a dictionary without the key \<open>trend\<close> is
  accepted and scores as one whose trend is \<open>flat\<close>, so it subtracts 0.02 too.
\<close>

theorem market_trend_adjusts_confidence:
  "confidence_before_clamp t md
     = confidence_before_clamp t [(''trend'', PStr ''flat'')] + 0.02 + spec_trend_adjustment md
   \<and> (map_of md ''trend'' = None \<longrightarrow>
        confidence_before_clamp t md = confidence_before_clamp t [(''trend'', PStr ''flat'')]
        \<and> spec_trend_adjustment md = - 0.02)
   \<and> confidence_before_clamp [] [(''trend'', PStr ''up'')] = 0.5 + 0.10
   \<and> confidence_before_clamp [] [(''trend'', PStr ''down'')] = 0.5 - 0.05
   \<and> confidence_before_clamp [] [(''trend'', PStr ''sideways'')] = 0.5 - 0.02
   \<and> confidence_before_clamp [] [(''trend'', PInt 1)] = 0.5 - 0.02
   \<and> confidence_before_clamp [] [] = 0.5 - 0.02"
proof -
  have flat: "spec_trend_adjustment [(''trend'', PStr ''flat'')] = - 0.02"
    by (simp add: spec_trend_adjustment_def)
  have a: "confidence_before_clamp t md
     = confidence_before_clamp t [(''trend'', PStr ''flat'')] + 0.02 + spec_trend_adjustment md"
    unfolding confidence_before_clamp_sum flat by simp
  have b: "map_of md ''trend'' = None \<longrightarrow> spec_trend_adjustment md = - 0.02"
    by (simp add: spec_trend_adjustment_def)
  have c: "confidence_before_clamp [] [(''trend'', PStr ''up'')] = 0.5 + 0.10"
    "confidence_before_clamp [] [(''trend'', PStr ''down'')] = 0.5 - 0.05"
    "confidence_before_clamp [] [(''trend'', PStr ''sideways'')] = 0.5 - 0.02"
    "confidence_before_clamp [] [(''trend'', PInt 1)] = 0.5 - 0.02"
    "confidence_before_clamp [] [] = 0.5 - 0.02"
    by (simp_all add: before_clamp_empty spec_trend_adjustment_def)
  from a b c show ?thesis by simp
qed

text \<open>
  A dictionary that has no trend scores 0.48 on the empty transcript.
\<close>

theorem market_trend_adjusts_confidence_witness:
  "map_of [(''volume'', PInt 10)] ''trend'' = None
   \<and> confidence_before_clamp [] [(''volume'', PInt 10)] = 0.48"
  using market_trend_adjusts_confidence [of "[]" "[(''volume'', PInt 10)]"]
  by (simp add: before_clamp_empty spec_trend_adjustment_def)

text \<open>
  Claim C10. Before it is clamped, the confidence lies between 0.15 and 0.93: each pair
  gives at most two agreements and at most two disagreements, so at most six of each in
  total; hence the clamp to the unit interval leaves the value as it is.
\<close>

theorem confidence_before_clamp_range:
  "0.15 \<le> confidence_before_clamp t md \<and> confidence_before_clamp t md \<le> 0.93
   \<and> calculate_confidence t md = confidence_before_clamp t md
   \<and> fst (check_pairwise text_a text_b) \<le> 2 \<and> snd (check_pairwise text_a text_b) \<le> 2
   \<and> total_agreements t \<le> 6 \<and> total_disagreements t \<le> 6"
  using before_clamp_bounds [of t md] pair_bounds [of text_a text_b] totals_bounds [of t]
  by (simp add: calculate_confidence_def)

lemma format_rounds_loop_acc:
  "format_rounds_loop debate_rounds acc = acc @ map spec_render_entry debate_rounds"
  by (induction debate_rounds arbitrary: acc) (simp_all add: spec_render_entry_def)

text \<open>
  Claim C9. \<open>_format_previous_rounds\<close> gives the sentinel text on the empty
  transcript; on a transcript with at least one entry it gives the renderings of the
  entries, in transcript order, joined by newlines. Being a function of the transcript
  alone, it gives the same text each time it is applied to the same transcript.
\<close>

theorem format_previous_rounds_rendering:
  "format_previous_rounds [] = ''No previous arguments.''
   \<and> format_previous_rounds (e # es) = join ''\<newline>'' (map spec_render_entry (e # es))
   \<and> format_previous_rounds
        [\<lparr> round_no = 1, perspective = ''fundamental'', arguments = ''Bullish.'' \<rparr>,
         \<lparr> round_no = 1, perspective = ''technical'', arguments = ''Bearish.'' \<rparr>]
      = ''Round 1 (FUNDAMENTAL):\<newline>Bullish.\<newline>\<newline>Round 1 (TECHNICAL):\<newline>Bearish.\<newline>''"
  by (simp add: format_previous_rounds_def format_rounds_loop_acc spec_render_entry_def
      upper_eval str_int_def digit_char_def)

lemma order_example_texts:
  "persona_text
     [\<lparr> round_no = 1, perspective = ''fundamental'', arguments = ''mild'' \<rparr>,
      \<lparr> round_no = 2, perspective = ''fundamental'', arguments = ''increase'' \<rparr>,
      \<lparr> round_no = 1, perspective = ''technical'', arguments = ''mild increase'' \<rparr>] ''fundamental''
   = ''mild increase''"
  "persona_text
     [\<lparr> round_no = 2, perspective = ''fundamental'', arguments = ''increase'' \<rparr>,
      \<lparr> round_no = 1, perspective = ''fundamental'', arguments = ''mild'' \<rparr>,
      \<lparr> round_no = 1, perspective = ''technical'', arguments = ''mild increase'' \<rparr>] ''fundamental''
   = ''increase mild''"
  "persona_text
     [\<lparr> round_no = 1, perspective = ''fundamental'', arguments = ''mild'' \<rparr>,
      \<lparr> round_no = 2, perspective = ''fundamental'', arguments = ''increase'' \<rparr>,
      \<lparr> round_no = 1, perspective = ''technical'', arguments = ''mild increase'' \<rparr>] ''technical''
   = ''mild increase''"
  "persona_text
     [\<lparr> round_no = 2, perspective = ''fundamental'', arguments = ''increase'' \<rparr>,
      \<lparr> round_no = 1, perspective = ''fundamental'', arguments = ''mild'' \<rparr>,
      \<lparr> round_no = 1, perspective = ''technical'', arguments = ''mild increase'' \<rparr>] ''technical''
   = ''mild increase''"
  "persona_text
     [\<lparr> round_no = 1, perspective = ''fundamental'', arguments = ''mild'' \<rparr>,
      \<lparr> round_no = 2, perspective = ''fundamental'', arguments = ''increase'' \<rparr>,
      \<lparr> round_no = 1, perspective = ''technical'', arguments = ''mild increase'' \<rparr>] ''risk''
   = []"
  "persona_text
     [\<lparr> round_no = 2, perspective = ''fundamental'', arguments = ''increase'' \<rparr>,
      \<lparr> round_no = 1, perspective = ''fundamental'', arguments = ''mild'' \<rparr>,
      \<lparr> round_no = 1, perspective = ''technical'', arguments = ''mild increase'' \<rparr>] ''risk''
   = []"
  by (simp_all add: persona_text_def lower_eval)

lemma order_example_pairs:
  "check_pairwise ''mild increase'' ''mild increase'' = (1, 0)"
  "check_pairwise ''increase mild'' ''mild increase'' = (0, 0)"
  by (simp_all add: check_pairwise_closed spec_pair_agreements_def spec_pair_disagreements_def str_in_eval)

lemma order_example_crossing:
  "\<not> str_in ''moving average crossing above price'' ''mild increase''"
  "\<not> str_in ''moving average crossing above price'' ''increase mild''"
  by (simp_all add: str_in_eval)

text \<open>
  Claim C4 as stated fails: exchanging two entries of one persona changes the text that
  their concatenation gives, here from \<open>mild increase\<close> to \<open>increase mild\<close>, and
  the score from 0.53 to 0.48.
\<close>

theorem calculate_confidence_permutation_counterexample:
  "mset [\<lparr> round_no = 1, perspective = ''fundamental'', arguments = ''mild'' \<rparr>,
         \<lparr> round_no = 2, perspective = ''fundamental'', arguments = ''increase'' \<rparr>,
         \<lparr> round_no = 1, perspective = ''technical'', arguments = ''mild increase'' \<rparr>]
   = mset [\<lparr> round_no = 2, perspective = ''fundamental'', arguments = ''increase'' \<rparr>,
           \<lparr> round_no = 1, perspective = ''fundamental'', arguments = ''mild'' \<rparr>,
           \<lparr> round_no = 1, perspective = ''technical'', arguments = ''mild increase'' \<rparr>]
   \<and> calculate_confidence
        [\<lparr> round_no = 1, perspective = ''fundamental'', arguments = ''mild'' \<rparr>,
         \<lparr> round_no = 2, perspective = ''fundamental'', arguments = ''increase'' \<rparr>,
         \<lparr> round_no = 1, perspective = ''technical'', arguments = ''mild increase'' \<rparr>] [] = 0.53
   \<and> calculate_confidence
        [\<lparr> round_no = 2, perspective = ''fundamental'', arguments = ''increase'' \<rparr>,
         \<lparr> round_no = 1, perspective = ''fundamental'', arguments = ''mild'' \<rparr>,
         \<lparr> round_no = 1, perspective = ''technical'', arguments = ''mild increase'' \<rparr>] [] = 0.48"
proof -
  have perm: "mset [a, b, c] = mset [b, a, c]" for a b c :: round_entry
    by simp
  have flat: "spec_trend_adjustment [] = - 0.02"
    by (simp add: spec_trend_adjustment_def)
  have one: "calculate_confidence
        [\<lparr> round_no = 1, perspective = ''fundamental'', arguments = ''mild'' \<rparr>,
         \<lparr> round_no = 2, perspective = ''fundamental'', arguments = ''increase'' \<rparr>,
         \<lparr> round_no = 1, perspective = ''technical'', arguments = ''mild increase'' \<rparr>] [] = 0.53"
    unfolding calculate_confidence_def confidence_before_clamp_sum total_agreements_def
      total_disagreements_def spec_crossing_bonus_alt order_example_texts order_example_pairs
      check_pairwise_empty_right flat
    by (simp add: order_example_crossing str_in_empty)
  have two: "calculate_confidence
        [\<lparr> round_no = 2, perspective = ''fundamental'', arguments = ''increase'' \<rparr>,
         \<lparr> round_no = 1, perspective = ''fundamental'', arguments = ''mild'' \<rparr>,
         \<lparr> round_no = 1, perspective = ''technical'', arguments = ''mild increase'' \<rparr>] [] = 0.48"
    unfolding calculate_confidence_def confidence_before_clamp_sum total_agreements_def
      total_disagreements_def spec_crossing_bonus_alt order_example_texts order_example_pairs
      check_pairwise_empty_right flat
    by (simp add: order_example_crossing str_in_empty)
  show ?thesis
    by (intro conjI perm one two)
qed

text \<open>
  Claim C4, as amended. The confidence score is a function of the transcript and the market
  data, and it depends on the transcript only through the sequence of argument texts of
  each of the three personas: two transcripts in which every persona has the same
  arguments in the same order score the same, so entries of different personas may be
  interleaved in any way.
\<close>

theorem calculate_confidence_persona_order:
  assumes "\<forall>p \<in> {''fundamental'', ''technical'', ''risk''}.
             map arguments (filter (\<lambda>r. perspective r = p) t1)
               = map arguments (filter (\<lambda>r. perspective r = p) t2)"
  shows "calculate_confidence t1 md = calculate_confidence t2 md"
proof -
  have f: "map arguments (filter (\<lambda>r. perspective r = ''fundamental'') t1)
      = map arguments (filter (\<lambda>r. perspective r = ''fundamental'') t2)"
    and t: "map arguments (filter (\<lambda>r. perspective r = ''technical'') t1)
      = map arguments (filter (\<lambda>r. perspective r = ''technical'') t2)"
    and r: "map arguments (filter (\<lambda>r. perspective r = ''risk'') t1)
      = map arguments (filter (\<lambda>r. perspective r = ''risk'') t2)"
    using assms by blast+
  show ?thesis
    unfolding calculate_confidence_def confidence_before_clamp_def f t r ..
qed

text \<open>
  Two interleavings of the same entries, with equal scores.
\<close>

theorem calculate_confidence_persona_order_witness:
  "calculate_confidence
     [\<lparr> round_no = 1, perspective = ''fundamental'', arguments = ''mild'' \<rparr>,
      \<lparr> round_no = 1, perspective = ''technical'', arguments = ''mild increase'' \<rparr>,
      \<lparr> round_no = 2, perspective = ''fundamental'', arguments = ''increase'' \<rparr>] []
   = calculate_confidence
       [\<lparr> round_no = 1, perspective = ''technical'', arguments = ''mild increase'' \<rparr>,
        \<lparr> round_no = 1, perspective = ''fundamental'', arguments = ''mild'' \<rparr>,
        \<lparr> round_no = 2, perspective = ''fundamental'', arguments = ''increase'' \<rparr>] []"
  by (rule calculate_confidence_persona_order) simp

lemma role_loop_result:
  "role_loop E self md pa n dr rs acc g = (Inr rr, g') \<Longrightarrow>
     \<exists>new. rr = acc @ new \<and> map perspective new = map name rs
        \<and> (\<forall>r \<in> set new. round_no r = int n + 1)"
proof (induction rs arbitrary: acc g)
  case Nil
  then show ?case by simp
next
  case (Cons ri rs)
  obtain res g1 where cp: "create_prompt E g (debate_role n ri)
      (debate_content E self md pa n (name ri) dr) = (res, g1)"
    by (cases "create_prompt E g (debate_role n ri) (debate_content E self md pa n (name ri) dr)")
  show ?case
  proof (cases res)
    case (Inl e)
    with Cons.prems cp show ?thesis by (simp add: Let_def)
  next
    case (Inr response)
    with Cons.prems cp have
      "role_loop E self md pa n dr rs
         (acc @ [\<lparr> round_no = int n + 1, perspective = name ri, arguments = response \<rparr>]) g1 = (Inr rr, g')"
      by (simp add: Let_def)
    from Cons.IH [OF this] obtain new where
      new: "rr = (acc @ [\<lparr> round_no = int n + 1, perspective = name ri, arguments = response \<rparr>]) @ new"
        "map perspective new = map name rs" "\<forall>r \<in> set new. round_no r = int n + 1"
      by blast
    show ?thesis
      by (rule exI [of _ "\<lparr> round_no = int n + 1, perspective = name ri, arguments = response \<rparr> # new"])
        (use new in simp)
  qed
qed

lemma role_loop_length:
  assumes "role_loop E self md pa n dr rs [] g = (Inr rr, g')"
  shows "length rr = length rs" and "\<forall>r \<in> set rr. round_no r = int n + 1"
    and "map perspective rr = map name rs"
proof -
  from role_loop_result [OF assms] obtain new where
    "rr = [] @ new" "map perspective new = map name rs" "\<forall>r \<in> set new. round_no r = int n + 1"
    by blast
  then show "length rr = length rs" "\<forall>r \<in> set rr. round_no r = int n + 1" "map perspective rr = map name rs"
    by (auto dest: arg_cong [where f = length])
qed

lemma debate_round_cases:
  assumes "debate_round E md pa n dr self g = (res, self', g')"
  shows "(\<exists>e. res = Inl e \<and> self' = self)
       \<or> (\<exists>rr. res = Inr (Break (dr @ rr)) \<and> self' = self
             \<and> role_loop E self md pa n dr (roles self) [] g = (Inr rr, g')
             \<and> card (set (extract_stances rr)) \<le> 1)
       \<or> (\<exists>rr g1 s. res = Inr (Continue (dr @ rr) s)
             \<and> self' = self\<lparr> short_term_memory := [s], mid_term_memory := mid_term_memory self @ [s] \<rparr>
             \<and> role_loop E self md pa n dr (roles self) [] g = (Inr rr, g1)
             \<and> \<not> card (set (extract_stances rr)) \<le> 1
             \<and> summarize_speeches E g1 (map arguments rr) = (Inr s, g'))"
proof -
  obtain r1 g1 where rl: "role_loop E self md pa n dr (roles self) [] g = (r1, g1)"
    by (cases "role_loop E self md pa n dr (roles self) [] g")
  show ?thesis
  proof (cases r1)
    case (Inl e)
    with assms rl show ?thesis by (auto simp add: debate_round_def)
  next
    case (Inr rr)
    note rr = this
    from role_loop_length(2) [OF rl [unfolded rr]]
    have all: "\<forall>r \<in> set rr. round_no r = int n + 1" .
    show ?thesis
    proof (cases "card (set (extract_stances rr)) \<le> 1")
      case True
      with assms rl rr show ?thesis by (auto simp add: debate_round_def Let_def)
    next
      case False
      then have "extract_stances rr \<noteq> []" by auto
      then have ne: "rr \<noteq> []" by (auto simp: extract_stances_def)
      with all have "round_no (last rr) = int n + 1" by simp
      with all have filt: "filter (\<lambda>r. round_no r = round_no (last rr)) rr = rr"
        by (simp add: filter_id_conv)
      obtain r2 g2 where ss: "summarize_speeches E g1 (map arguments rr) = (r2, g2)"
        by (cases "summarize_speeches E g1 (map arguments rr)")
      show ?thesis
      proof (cases r2)
        case (Inl e)
        with assms rl rr False ss filt show ?thesis by (auto simp add: debate_round_def Let_def)
      next
        case (Inr s)
        with assms rl rr False ss filt show ?thesis
          by (auto simp add: debate_round_def Let_def add_to_short_term_memory_def add_to_mid_term_memory_def)
      qed
    qed
  qed
qed

lemma debate_round_agent:
  assumes "debate_round E md pa n dr self g = (res, self', g')"
  shows "roles self' = roles self" and "self_debate_rounds self' = self_debate_rounds self"
    and "prefix (mid_term_memory self) (mid_term_memory self')"
  using debate_round_cases [OF assms] by auto

lemma debate_loop_agent:
  "debate_loop E md pa ns dr self g = (res, self', g') \<Longrightarrow>
     roles self' = roles self \<and> self_debate_rounds self' = self_debate_rounds self
     \<and> prefix (mid_term_memory self) (mid_term_memory self')"
proof (induction ns arbitrary: dr self g)
  case Nil
  then show ?case by simp
next
  case (Cons n ns)
  obtain r1 s1 g1 where dr1: "debate_round E md pa n dr self g = (r1, s1, g1)"
    by (cases "debate_round E md pa n dr self g")
  note ag = debate_round_agent [OF dr1]
  show ?case
  proof (cases r1)
    case (Inl e)
    with Cons.prems dr1 ag show ?thesis by auto
  next
    case (Inr st)
    show ?thesis
    proof (cases st)
      case (Break t)
      with Cons.prems dr1 Inr ag show ?thesis by auto
    next
      case (Continue t s)
      with Cons.prems dr1 Inr have "debate_loop E md pa ns t s1 g1 = (res, self', g')" by simp
      from Cons.IH [OF this] ag show ?thesis by (auto intro: prefix_order.trans)
    qed
  qed
qed

lemma debate_loop_transcript:
  "debate_loop E md pa ns dr self g = (Inr t, self', g') \<Longrightarrow>
     \<exists>new. t = dr @ new \<and> length new \<le> length ns * length (roles self)
        \<and> (\<forall>r \<in> set new. \<exists>n \<in> set ns. round_no r = int n + 1)"
proof (induction ns arbitrary: dr self g)
  case Nil
  then show ?case by simp
next
  case (Cons n ns)
  obtain r1 s1 g1 where dr1: "debate_round E md pa n dr self g = (r1, s1, g1)"
    by (cases "debate_round E md pa n dr self g")
  from debate_round_cases [OF dr1] consider
      (err) e where "r1 = Inl e"
    | (brk) rr where "r1 = Inr (Break (dr @ rr))"
        "role_loop E self md pa n dr (roles self) [] g = (Inr rr, g1)"
    | (cont) rr g0 s where "r1 = Inr (Continue (dr @ rr) s)"
        "role_loop E self md pa n dr (roles self) [] g = (Inr rr, g0)"
    by blast
  then show ?case
  proof cases
    case err
    with Cons.prems dr1 show ?thesis by simp
  next
    case brk
    from role_loop_length [OF brk(2)]
    have "length rr = length (roles self)" "\<forall>r \<in> set rr. round_no r = int n + 1" by simp_all
    moreover from Cons.prems dr1 brk(1) have "t = dr @ rr" by simp
    ultimately show ?thesis by auto
  next
    case cont
    from role_loop_length [OF cont(2)]
    have rr: "length rr = length (roles self)" "\<forall>r \<in> set rr. round_no r = int n + 1" by simp_all
    from Cons.prems dr1 cont(1) have "debate_loop E md pa ns (dr @ rr) s1 g1 = (Inr t, self', g')"
      by simp
    from Cons.IH [OF this] obtain new where
      new: "t = (dr @ rr) @ new" "length new \<le> length ns * length (roles s1)"
        "\<forall>r \<in> set new. \<exists>n \<in> set ns. round_no r = int n + 1"
      by blast
    have "roles s1 = roles self" using debate_round_agent(1) [OF dr1] .
    with new rr show ?thesis
      by (intro exI [of _ "rr @ new"]) auto
  qed
qed

lemma upt3: "[0..<3] = [0, 1, 2]"
  by (simp add: upt_rec)

lemma demo_role_loop:
  "roles self = roles debate_agent_init \<Longrightarrow>
   role_loop demo_env self md pa n dr (roles self) [] g = (Inr (demo_round (int n + 1) g), g + 3)"
  by (simp add: debate_agent_init_def demo_env_def demo_round_def demo_entry_def Let_def)

lemma demo_lower:
  "lower ''Bullish.'' = ''bullish.''"
  "lower ''Bearish.'' = ''bearish.''"
  "lower ''Undecided.'' = ''undecided.''"
  by (simp_all add: lower_eval)

lemma demo_text_stances:
  "spec_stance ''Bullish.'' = ''bullish''"
  "spec_stance ''Bearish.'' = ''bearish''"
  "spec_stance ''Undecided.'' = ''neutral''"
  unfolding spec_stance_def demo_lower by (simp_all add: str_in_eval)

lemma demo_round_stances:
  "extract_stances (demo_round k g)
     = [spec_stance (demo_response g), spec_stance (demo_response (g + 1)), spec_stance (demo_response (g + 2))]"
  by (simp add: extract_stances_def extract_stances_loop_acc demo_round_def demo_entry_def)

lemma demo_stances:
  "extract_stances (demo_round k 0) = [''bullish'', ''bearish'', ''neutral'']"
  "extract_stances (demo_round k 3) = [''bullish'', ''bullish'', ''bearish'']"
  "extract_stances (demo_round k 6) = [''bullish'', ''bullish'', ''bullish'']"
  "extract_stances (demo_round k 10) = [''bullish'', ''bearish'', ''neutral'']"
  "extract_stances (demo_round k 13) = [''bullish'', ''bullish'', ''bearish'']"
  "extract_stances (demo_round k 16) = [''bullish'', ''bullish'', ''bullish'']"
  unfolding demo_round_stances by (simp_all add: demo_response_def demo_text_stances)

lemma demo_round_filter:
  "filter (\<lambda>r. round_no r = round_no (last (demo_round k g))) (demo_round k g) = demo_round k g"
  by (simp add: demo_round_def demo_entry_def)

lemma demo_round_continue:
  assumes "roles self = roles debate_agent_init"
    and "\<not> card (set (extract_stances (demo_round (int n + 1) g))) \<le> 1"
  shows "debate_round demo_env md pa n dr self g =
     (Inr (Continue (dr @ demo_round (int n + 1) g) (''summary before call '' @ str_nat (g + 3))),
      self\<lparr> short_term_memory := [''summary before call '' @ str_nat (g + 3)],
            mid_term_memory := mid_term_memory self @ [''summary before call '' @ str_nat (g + 3)] \<rparr>,
      g + 3)"
  unfolding debate_round_def demo_role_loop [OF assms(1)]
  using assms(2)
  by (simp add: Let_def demo_round_filter demo_env_def add_to_short_term_memory_def
      add_to_mid_term_memory_def del: str_nat.simps)

lemma demo_round_break:
  assumes "roles self = roles debate_agent_init"
    and "card (set (extract_stances (demo_round (int n + 1) g))) \<le> 1"
  shows "debate_round demo_env md pa n dr self g = (Inr (Break (dr @ demo_round (int n + 1) g)), self, g + 3)"
  unfolding debate_round_def demo_role_loop [OF assms(1)]
  using assms(2) by (simp add: Let_def)

lemma demo_cards:
  "\<not> card (set [''bullish'', ''bearish'', ''neutral'']) \<le> 1"
  "\<not> card (set [''bullish'', ''bullish'', ''bearish'']) \<le> 1"
  "card (set [''bullish'', ''bullish'', ''bullish'']) \<le> 1"
  by simp_all

lemma demo_conduct_debate:
  assumes "roles self = roles debate_agent_init" and "self_debate_rounds self = 3"
    and "g = 0 \<or> g = 10"
  shows "conduct_debate demo_env md pa self g = (Inr (demo_transcript g), demo_agent_after g self, g + 9)"
proof -
  let ?s1 = "self\<lparr> short_term_memory := [''summary before call '' @ str_nat (g + 3)],
            mid_term_memory := mid_term_memory self @ [''summary before call '' @ str_nat (g + 3)] \<rparr>"
  let ?s2 = "?s1\<lparr> short_term_memory := [''summary before call '' @ str_nat (g + 3 + 3)],
            mid_term_memory := mid_term_memory ?s1 @ [''summary before call '' @ str_nat (g + 3 + 3)] \<rparr>"
  have c1: "\<not> card (set (extract_stances (demo_round (int 0 + 1) g))) \<le> 1"
    using assms(3) demo_cards by (auto simp: demo_stances)
  have c2: "\<not> card (set (extract_stances (demo_round (int 1 + 1) (g + 3)))) \<le> 1"
    using assms(3) demo_cards by (auto simp: demo_stances)
  have c3: "card (set (extract_stances (demo_round (int 2 + 1) (g + 3 + 3)))) \<le> 1"
    using assms(3) demo_cards by (auto simp: demo_stances)
  have r1: "roles ?s1 = roles debate_agent_init" and r2: "roles ?s2 = roles debate_agent_init"
    using assms(1) by simp_all
  have s2: "?s2 = demo_agent_after g self"
    by (simp add: demo_agent_after_def add.assoc del: str_nat.simps)
  have t: "[] @ demo_round (int 0 + 1) g @ demo_round (int 1 + 1) (g + 3) @ demo_round (int 2 + 1) (g + 3 + 3)
      = demo_transcript g"
    by (simp add: demo_transcript_def add.assoc)
  have "conduct_debate demo_env md pa self g =
      (Inr (([] @ demo_round (int 0 + 1) g) @ demo_round (int 1 + 1) (g + 3) @ demo_round (int 2 + 1) (g + 3 + 3)),
       ?s2, g + 3 + 3 + 3)"
    unfolding conduct_debate_def assms(2) upt3 debate_loop.simps
      demo_round_continue [OF assms(1) c1] prod.case sum.case round_status.case
      demo_round_continue [OF r1 c2]
      demo_round_break [OF r2 c3]
    by (simp del: str_nat.simps)
  then show ?thesis
    unfolding s2 using t by (simp add: add.assoc)
qed

lemma demo_synthesize:
  "synthesize_debate demo_env t self g = (Inr (demo_response g), g + 1)"
  by (simp add: synthesize_debate_def demo_env_def)

lemma lower_append: "lower (a @ b) = lower a @ lower b"
  by (simp add: lower_def)

lemma lower_space_Cons: "lower (CHR '' '' # s) = CHR '' '' # lower s"
  by (simp add: lower_eval)

lemma demo_persona_texts_general:
  "persona_text (demo_transcript g) ''fundamental''
     = lower (demo_response g) @ '' '' @ lower (demo_response (g + 3)) @ '' '' @ lower (demo_response (g + 6))"
  "persona_text (demo_transcript g) ''technical''
     = lower (demo_response (g + 1)) @ '' '' @ lower (demo_response (g + 4)) @ '' ''
         @ lower (demo_response (g + 7))"
  "persona_text (demo_transcript g) ''risk''
     = lower (demo_response (g + 2)) @ '' '' @ lower (demo_response (g + 5)) @ '' ''
         @ lower (demo_response (g + 8))"
  by (simp_all add: persona_text_def demo_transcript_def demo_round_def demo_entry_def
      lower_append lower_space_Cons add.assoc add.commute)

lemma demo_persona_texts:
  "persona_text (demo_transcript 0) ''fundamental'' = ''bullish. bullish. bullish.''"
  "persona_text (demo_transcript 0) ''technical'' = ''bearish. bullish. bullish.''"
  "persona_text (demo_transcript 0) ''risk'' = ''undecided. bearish. bullish.''"
  "persona_text (demo_transcript 10) ''fundamental'' = ''bullish. bullish. bullish.''"
  "persona_text (demo_transcript 10) ''technical'' = ''bearish. bullish. bullish.''"
  "persona_text (demo_transcript 10) ''risk'' = ''undecided. bearish. bullish.''"
  unfolding demo_persona_texts_general
  by (simp_all add: demo_response_def demo_lower)

lemma demo_no_phrases:
  "\<not> str_in ''mild increase'' ''bullish. bullish. bullish.''"
  "\<not> str_in ''mild increase'' ''bearish. bullish. bullish.''"
  "\<not> str_in ''mild increase'' ''undecided. bearish. bullish.''"
  "\<not> str_in ''low risk'' ''bullish. bullish. bullish.''"
  "\<not> str_in ''low risk'' ''bearish. bullish. bullish.''"
  "\<not> str_in ''low risk'' ''undecided. bearish. bullish.''"
  "\<not> str_in ''downward pressure'' ''bullish. bullish. bullish.''"
  "\<not> str_in ''downward pressure'' ''bearish. bullish. bullish.''"
  "\<not> str_in ''downward pressure'' ''undecided. bearish. bullish.''"
  "\<not> str_in ''moving average crossing above price'' ''bullish. bullish. bullish.''"
  "\<not> str_in ''moving average crossing above price'' ''bearish. bullish. bullish.''"
  "\<not> str_in ''moving average crossing above price'' ''undecided. bearish. bullish.''"
  by (simp_all add: str_in_eval)

lemma demo_confidence:
  "calculate_confidence (demo_transcript 0) [(''trend'', PStr ''up'')] = 0.6"
  "calculate_confidence (demo_transcript 10) [(''trend'', PStr ''up'')] = 0.6"
  unfolding calculate_confidence_def confidence_before_clamp_sum total_agreements_def
    total_disagreements_def spec_crossing_bonus_alt demo_persona_texts check_pairwise_closed
    spec_pair_agreements_def spec_pair_disagreements_def
  by (simp_all add: demo_no_phrases spec_trend_adjustment_def)

lemma demo_data_get:
  "dict_get demo_data ''market_data'' (PDict []) = PDict [(''trend'', PStr ''up'')]"
  "dict_get demo_data ''proposed_action'' (PDict []) = PDict [(''action'', PStr ''buy'')]"
  "dict_get demo_data ''timestamp'' PNone = PStr ''2024-05-01T09:30:00''"
  by (simp_all add: dict_get_def demo_data_def)

lemma demo_analyze:
  assumes "roles self = roles debate_agent_init" and "self_debate_rounds self = 3"
    and "g = 0 \<or> g = 10"
  shows "analyze demo_env demo_data self g = (Inr (demo_result g), demo_agent_after g self, g + 10)"
proof -
  have conf: "calculate_confidence (demo_transcript g) [(''trend'', PStr ''up'')] = 0.6"
    using assms(3) demo_confidence by auto
  have save: "save_to_memory demo_env gg r = (Inr (), gg)" for gg r
    by (simp add: demo_env_def)
  show ?thesis
    unfolding analyze_def demo_data_get Let_def demo_conduct_debate [OF assms] prod.case sum.case
      demo_synthesize pyval.case conf save
    by (simp add: demo_result_def add.assoc)
qed

lemma demo_init: "roles debate_agent_init = roles debate_agent_init" "self_debate_rounds debate_agent_init = 3"
  by (simp_all add: debate_agent_init_def)

lemma demo_after: "roles (demo_agent_after g self) = roles self"
  "self_debate_rounds (demo_agent_after g self) = self_debate_rounds self"
  by (simp_all add: demo_agent_after_def)

lemma demo_memory_first:
  "mid_term_memory (demo_agent_after 0 debate_agent_init) = [''summary before call 3'', ''summary before call 6'']"
  "short_term_memory (demo_agent_after 0 debate_agent_init) = [''summary before call 6'']"
  unfolding demo_agent_after_def
  by (simp_all add: debate_agent_init_def digit_char_def)

lemma demo_memory_second:
  "mid_term_memory (demo_agent_after 10 (demo_agent_after 0 debate_agent_init))
     = [''summary before call 3'', ''summary before call 6'', ''summary before call 13'',
        ''summary before call 16'']"
  "short_term_memory (demo_agent_after 10 (demo_agent_after 0 debate_agent_init))
     = [''summary before call 16'']"
  unfolding demo_agent_after_def [of 10]
  by (simp_all add: demo_memory_first digit_char_def)

text \<open>
  Claim C3. \<open>_calculate_confidence\<close> returns a value between 0 and 1 for every
  transcript and every market data; and whenever \<open>analyze\<close> returns a result, the
  result has the key \<open>confidence_score\<close>, whose value is the confidence of the
  transcript under the key \<open>debate_rounds\<close> and the market data of the call.
\<close>

theorem confidence_score_in_unit_interval:
  "0 \<le> calculate_confidence t md \<and> calculate_confidence t md \<le> 1
   \<and> (analyze E data self g = (Inr result, self', g') \<longrightarrow>
        (\<exists>rounds market.
            dict_get data ''market_data'' (PDict []) = PDict market
          \<and> map_of result ''debate_rounds'' = Some (RRounds rounds)
          \<and> map_of result ''confidence_score'' = Some (RFloat (calculate_confidence rounds market))
          \<and> 0 \<le> calculate_confidence rounds market \<and> calculate_confidence rounds market \<le> 1))"
proof -
  have range: "0 \<le> calculate_confidence t md \<and> calculate_confidence t md \<le> 1" for t md
    by (simp add: calculate_confidence_def)
  have "\<exists>rounds market.
            dict_get data ''market_data'' (PDict []) = PDict market
          \<and> map_of result ''debate_rounds'' = Some (RRounds rounds)
          \<and> map_of result ''confidence_score'' = Some (RFloat (calculate_confidence rounds market))"
    if "analyze E data self g = (Inr result, self', g')"
    using that unfolding analyze_def Let_def
    by (auto split: prod.splits sum.splits pyval.splits)
  with range show ?thesis by blast
qed

text \<open>
  The example run returns a result whose confidence score is 0.6.
\<close>

theorem confidence_score_in_unit_interval_witness:
  "analyze demo_env demo_data debate_agent_init 0
     = (Inr (demo_result 0), demo_agent_after 0 debate_agent_init, 10)
   \<and> map_of (demo_result 0) ''confidence_score'' = Some (RFloat 0.6)
   \<and> (\<exists>rounds market.
          dict_get demo_data ''market_data'' (PDict []) = PDict market
        \<and> map_of (demo_result 0) ''debate_rounds'' = Some (RRounds rounds)
        \<and> map_of (demo_result 0) ''confidence_score'' = Some (RFloat (calculate_confidence rounds market))
        \<and> 0 \<le> calculate_confidence rounds market \<and> calculate_confidence rounds market \<le> 1)"
proof -
  have run: "analyze demo_env demo_data debate_agent_init 0
     = (Inr (demo_result 0), demo_agent_after 0 debate_agent_init, 10)"
    using demo_analyze [OF demo_init, of 0] by simp
  have score: "map_of (demo_result 0) ''confidence_score'' = Some (RFloat 0.6)"
    by (simp add: demo_result_def)
  from confidence_score_in_unit_interval [of "[]" "[]" demo_env demo_data debate_agent_init 0
      "demo_result 0" "demo_agent_after 0 debate_agent_init" 10] run score
  show ?thesis by blast
qed

lemma str_in_lower_bullish: "str_in ''bullish'' s \<Longrightarrow> str_in ''bullish'' (lower s)"
proof -
  assume "str_in ''bullish'' s"
  then have "sublist (map lower_char ''bullish'') (map lower_char s)"
    unfolding str_in_def by (rule map_mono_sublist)
  moreover have "map lower_char ''bullish'' = ''bullish''"
    by (simp add: lower_char_def ascii_uppercase_def ascii_lowercase_def)
  ultimately show ?thesis by (simp add: str_in_def lower_def)
qed

lemma same_stance_card: "set stances \<subseteq> {s} \<Longrightarrow> card (set stances) \<le> 1"
  using card_mono [of "{s}" "set stances"] by simp

lemma converged_round:
  assumes "role_loop E self md pa n dr (roles self) [] g = (Inr rr, g1)"
    and "card (set (extract_stances rr)) \<le> 1"
  shows "debate_round E md pa n dr self g = (Inr (Break (dr @ rr)), self, g1)"
  using assms by (simp add: debate_round_def Let_def)

lemma all_bullish_stances:
  assumes "\<forall>r \<in> set rr. str_in ''bullish'' (arguments r) \<or> str_in ''bullish'' (lower (arguments r))"
  shows "set (extract_stances rr) \<subseteq> {''bullish''}"
proof -
  have "spec_stance (arguments r) = ''bullish''" if "r \<in> set rr" for r
    using assms that str_in_lower_bullish [of "arguments r"] by (auto simp: spec_stance_def)
  then show ?thesis
    by (auto simp: extract_stances_def extract_stances_loop_acc)
qed

text \<open>
  Claim C2. When every entry of the round just generated has the same stance
  \<open>s\<close> (\<open>neutral\<close> included), the body of the loop ends at \<open>break\<close>: the loop
  returns the transcript with that round as its last, whatever rounds were left, and the
  agent and the world are those at the end of the round's generations. In particular, with
  three personas, when the three texts of the first round contain \<open>bullish\<close> (as
  written, or once lower-cased), the debate returns exactly these three entries. And with
  three rounds and three personas, a transcript that the debate returns has at most nine
  entries, with round numbers from 1 to 3.
\<close>

theorem convergence_stops_debate:
  "(role_loop E self md pa n dr (roles self) [] g = (Inr rr, g1) \<and> set (extract_stances rr) \<subseteq> {s}
      \<longrightarrow> debate_round E md pa n dr self g = (Inr (Break (dr @ rr)), self, g1)
        \<and> debate_loop E md pa (n # rest) dr self g = (Inr (dr @ rr), self, g1))
   \<and> (length (roles self) = 3 \<and> 0 < self_debate_rounds self
       \<and> role_loop E self md pa 0 [] (roles self) [] g = (Inr rr1, g1)
       \<and> (\<forall>r \<in> set rr1. str_in ''bullish'' (arguments r) \<or> str_in ''bullish'' (lower (arguments r)))
      \<longrightarrow> conduct_debate E md pa self g = (Inr rr1, self, g1) \<and> length rr1 = 3)
   \<and> (self_debate_rounds self = 3 \<and> length (roles self) = 3
       \<and> conduct_debate E md pa self g = (Inr t, self', g')
      \<longrightarrow> length t \<le> 9 \<and> (\<forall>r \<in> set t. 1 \<le> round_no r \<and> round_no r \<le> 3))"
proof (intro conjI impI)
  assume a: "role_loop E self md pa n dr (roles self) [] g = (Inr rr, g1) \<and> set (extract_stances rr) \<subseteq> {s}"
  then have "set (extract_stances rr) \<subseteq> {s}" by (rule conjunct2)
  then have c: "card (set (extract_stances rr)) \<le> 1" by (rule same_stance_card)
  from a c show br: "debate_round E md pa n dr self g = (Inr (Break (dr @ rr)), self, g1)"
    by (simp add: converged_round)
  then show "debate_loop E md pa (n # rest) dr self g = (Inr (dr @ rr), self, g1)"
    by simp
next
  assume a: "length (roles self) = 3 \<and> 0 < self_debate_rounds self
       \<and> role_loop E self md pa 0 [] (roles self) [] g = (Inr rr1, g1)
       \<and> (\<forall>r \<in> set rr1. str_in ''bullish'' (arguments r) \<or> str_in ''bullish'' (lower (arguments r)))"
  then have rl: "role_loop E self md pa 0 [] (roles self) [] g = (Inr rr1, g1)" by simp
  from a have "\<forall>r \<in> set rr1. str_in ''bullish'' (arguments r) \<or> str_in ''bullish'' (lower (arguments r))"
    by (elim conjE)
  then have "set (extract_stances rr1) \<subseteq> {''bullish''}" by (rule all_bullish_stances)
  then have "card (set (extract_stances rr1)) \<le> 1" by (rule same_stance_card)
  with rl have br: "debate_round E md pa 0 [] self g = (Inr (Break ([] @ rr1)), self, g1)"
    by (rule converged_round)
  from a have "[0..<self_debate_rounds self] = 0 # [1..<self_debate_rounds self]"
    by (simp add: upt_conv_Cons)
  with br show "conduct_debate E md pa self g = (Inr rr1, self, g1)"
    by (simp add: conduct_debate_def)
  from role_loop_length(1) [OF rl] a show "length rr1 = 3" by simp
next
  assume a: "self_debate_rounds self = 3 \<and> length (roles self) = 3
       \<and> conduct_debate E md pa self g = (Inr t, self', g')"
  then have "debate_loop E md pa [0..<3] [] self g = (Inr t, self', g')"
    unfolding conduct_debate_def by (elim conjE) (simp only:)
  from debate_loop_transcript [OF this] obtain new where
    new: "t = [] @ new" "length new \<le> length [0..<3::nat] * length (roles self)"
      "\<forall>r \<in> set new. \<exists>n \<in> set [0..<3]. round_no r = int n + 1"
    by blast
  from new(1,2) a show "length t \<le> 9" by simp
  from new(1,3) show "\<forall>r \<in> set t. 1 \<le> round_no r \<and> round_no r \<le> 3" by auto
qed

text \<open>
  The example generator from its seventh call on: three bullish texts, and the debate ends
  after one round.
\<close>

theorem convergence_stops_debate_witness:
  "role_loop demo_env debate_agent_init (PDict []) (PDict []) 0 [] (roles debate_agent_init) [] 6
     = (Inr (demo_round 1 6), 9)
   \<and> extract_stances (demo_round 1 6) = [''bullish'', ''bullish'', ''bullish'']
   \<and> debate_loop demo_env (PDict []) (PDict []) [0, 1, 2] [] debate_agent_init 6
     = (Inr (demo_round 1 6), debate_agent_init, 9)
   \<and> conduct_debate demo_env (PDict []) (PDict []) debate_agent_init 6
     = (Inr (demo_round 1 6), debate_agent_init, 9)
   \<and> length (demo_round 1 6) = 3 \<and> length (demo_round 1 6) \<le> 9"
proof -
  have rl: "role_loop demo_env debate_agent_init (PDict []) (PDict []) 0 [] (roles debate_agent_init) [] 6
     = (Inr (demo_round 1 6), 9)"
    using demo_role_loop [of debate_agent_init "PDict []" "PDict []" 0 "[]" 6] by simp
  have st: "extract_stances (demo_round 1 6) = [''bullish'', ''bullish'', ''bullish'']"
    by (rule demo_stances)
  have sub: "set (extract_stances (demo_round 1 6)) \<subseteq> {''bullish''}"
    unfolding st by simp
  have low: "\<forall>r \<in> set (demo_round 1 6).
      str_in ''bullish'' (arguments r) \<or> str_in ''bullish'' (lower (arguments r))"
    by (simp add: demo_round_def demo_entry_def demo_response_def demo_lower str_in_eval)
  have len: "length (roles debate_agent_init) = 3" "0 < self_debate_rounds debate_agent_init"
    "self_debate_rounds debate_agent_init = 3"
    by (simp_all add: debate_agent_init_def)
  note inst = convergence_stops_debate [of demo_env debate_agent_init "PDict []" "PDict []" 0 "[]" 6
      "demo_round 1 6" 9 "''bullish''" "[1, 2]" "demo_round 1 6" "demo_round 1 6" debate_agent_init 9]
  from inst rl st sub low len show ?thesis by simp
qed

lemma unconverged_rounds_memory:
  "unconverged_rounds E md pa k summaries start fin \<Longrightarrow>
     length summaries = k
     \<and> mid_term_memory (fst (snd fin)) = mid_term_memory (fst (snd start)) @ summaries
     \<and> (0 < k \<longrightarrow> short_term_memory (fst (snd fin)) = [last summaries])
     \<and> self_debate_rounds (fst (snd fin)) = self_debate_rounds (fst (snd start))"
proof (induction rule: unconverged_rounds.induct)
  case (no_round start)
  show ?case by simp
next
  case (next_round k summaries start dr self g dr' s self' g')
  from debate_round_cases [OF next_round.hyps(2)]
  have "self' = self\<lparr> short_term_memory := [s], mid_term_memory := mid_term_memory self @ [s] \<rparr>"
    by auto
  with next_round.IH show ?case by simp
qed

lemma unconverged_rounds_loop:
  "unconverged_rounds E md pa k summaries start fin \<Longrightarrow> k \<le> N \<Longrightarrow>
     debate_loop E md pa [0..<N] (fst start) (fst (snd start)) (snd (snd start))
       = debate_loop E md pa [k..<N] (fst fin) (fst (snd fin)) (snd (snd fin))"
proof (induction rule: unconverged_rounds.induct)
  case (no_round start)
  show ?case by simp
next
  case (next_round k summaries start dr self g dr' s self' g')
  from next_round.prems have "k < N" by simp
  then have "[k..<N] = k # [Suc k..<N]" by (simp add: upt_conv_Cons)
  with next_round.IH next_round.prems next_round.hyps(2) show ?case by simp
qed

text \<open>
  Claim C8, as amended. After \<open>k\<close> rounds that ran to the end of the loop body, the
  mid-term memory holds what it held when the debate started, followed by the \<open>k\<close>
  round summaries in order (hence exactly \<open>k\<close> entries when it started empty), the
  short-term memory holds exactly the last summary, and the debate continues from there
  with the rounds that are left. For each such round, the summary is what the summarizer
  returned on the argument texts of the round's entries.
\<close>

theorem memory_after_unconverged_rounds:
  "(unconverged_rounds E md pa k summaries (dr0, self0, g0) (dr, self, g) \<longrightarrow>
       length summaries = k
       \<and> mid_term_memory self = mid_term_memory self0 @ summaries
       \<and> (0 < k \<longrightarrow> short_term_memory self = [last summaries])
       \<and> (mid_term_memory self0 = [] \<longrightarrow> length (mid_term_memory self) = k)
       \<and> (dr0 = [] \<and> k \<le> self_debate_rounds self0 \<longrightarrow>
            conduct_debate E md pa self0 g0
              = debate_loop E md pa [k..<self_debate_rounds self0] dr self g))
   \<and> (debate_round E md pa n dr1 self1 g1 = (Inr (Continue dr2 round_summary), self2, g2) \<longrightarrow>
       short_term_memory self2 = [round_summary]
       \<and> mid_term_memory self2 = mid_term_memory self1 @ [round_summary]
       \<and> (\<exists>round_results g'.
             role_loop E self1 md pa n dr1 (roles self1) [] g1 = (Inr round_results, g')
           \<and> \<not> card (set (extract_stances round_results)) \<le> 1
           \<and> summarize_speeches E g' (map arguments round_results) = (Inr round_summary, g2)
           \<and> dr2 = dr1 @ round_results))"
proof (intro conjI impI)
  assume u: "unconverged_rounds E md pa k summaries (dr0, self0, g0) (dr, self, g)"
  from unconverged_rounds_memory [OF u]
  show "length summaries = k" "mid_term_memory self = mid_term_memory self0 @ summaries" by simp_all
  {
    assume "0 < k"
    with unconverged_rounds_memory [OF u] show "short_term_memory self = [last summaries]" by simp
  }
  {
    assume "mid_term_memory self0 = []"
    with unconverged_rounds_memory [OF u] show "length (mid_term_memory self) = k" by simp
  }
  {
    assume "dr0 = [] \<and> k \<le> self_debate_rounds self0"
    with unconverged_rounds_loop [OF u, of "self_debate_rounds self0"]
    show "conduct_debate E md pa self0 g0 = debate_loop E md pa [k..<self_debate_rounds self0] dr self g"
      by (simp add: conduct_debate_def)
  }
next
  assume c: "debate_round E md pa n dr1 self1 g1 = (Inr (Continue dr2 round_summary), self2, g2)"
  from debate_round_cases [OF c] obtain rr g' where
    r: "dr2 = dr1 @ rr"
      "self2 = self1\<lparr> short_term_memory := [round_summary],
                        mid_term_memory := mid_term_memory self1 @ [round_summary] \<rparr>"
      "role_loop E self1 md pa n dr1 (roles self1) [] g1 = (Inr rr, g')"
      "\<not> card (set (extract_stances rr)) \<le> 1"
      "summarize_speeches E g' (map arguments rr) = (Inr round_summary, g2)"
    by auto
  from r(2) show "short_term_memory self2 = [round_summary]"
    "mid_term_memory self2 = mid_term_memory self1 @ [round_summary]" by simp_all
  from r show "\<exists>round_results g'.
             role_loop E self1 md pa n dr1 (roles self1) [] g1 = (Inr round_results, g')
           \<and> \<not> card (set (extract_stances round_results)) \<le> 1
           \<and> summarize_speeches E g' (map arguments round_results) = (Inr round_summary, g2)
           \<and> dr2 = dr1 @ round_results"
    by blast
qed

lemma init_memory:
  "mid_term_memory debate_agent_init = []" "short_term_memory debate_agent_init = []"
  by (simp_all add: debate_agent_init_def)

lemma demo_first_round:
  "debate_round demo_env md pa 0 [] debate_agent_init 0 =
     (Inr (Continue (demo_round 1 0) ''summary before call 3''),
      debate_agent_init\<lparr> short_term_memory := [''summary before call 3''],
                         mid_term_memory := [''summary before call 3''] \<rparr>,
      3)"
  using demo_round_continue [of debate_agent_init 0 0 md pa "[]"]
  by (simp add: demo_stances init_memory digit_char_def)

lemma demo_second_round:
  "debate_round demo_env md pa 1 (demo_round 1 0)
     (debate_agent_init\<lparr> short_term_memory := [''summary before call 3''],
                         mid_term_memory := [''summary before call 3''] \<rparr>) 3 =
     (Inr (Continue (demo_round 1 0 @ demo_round 2 3) ''summary before call 6''),
      demo_agent_after 0 debate_agent_init, 6)"
  using demo_round_continue [of "debate_agent_init\<lparr> short_term_memory := [''summary before call 3''],
                         mid_term_memory := [''summary before call 3''] \<rparr>" 1 3 md pa "demo_round 1 0"]
  by (simp add: demo_stances init_memory digit_char_def demo_agent_after_def)

lemma demo_later_round:
  "debate_round demo_env md pa 0 [] (demo_agent_after 0 debate_agent_init) 10 =
     (Inr (Continue (demo_round 1 10) ''summary before call 13''),
      (demo_agent_after 0 debate_agent_init)
        \<lparr> short_term_memory := [''summary before call 13''],
          mid_term_memory := [''summary before call 3'', ''summary before call 6'',
                              ''summary before call 13''] \<rparr>,
      13)"
  using demo_round_continue [of "demo_agent_after 0 debate_agent_init" 0 10 md pa "[]"]
  by (simp add: demo_stances demo_after demo_memory_first digit_char_def)

text \<open>
  The example run from a new agent: after two rounds, two summaries in mid-term memory and
  the second one in short-term memory.
\<close>

theorem memory_after_unconverged_rounds_witness:
  "unconverged_rounds demo_env (PDict []) (PDict []) 2
     [''summary before call 3'', ''summary before call 6'']
     ([], debate_agent_init, 0) (demo_round 1 0 @ demo_round 2 3, demo_agent_after 0 debate_agent_init, 6)
   \<and> mid_term_memory (demo_agent_after 0 debate_agent_init)
       = [''summary before call 3'', ''summary before call 6'']
   \<and> short_term_memory (demo_agent_after 0 debate_agent_init) = [''summary before call 6'']
   \<and> length (mid_term_memory (demo_agent_after 0 debate_agent_init)) = 2
   \<and> debate_round demo_env (PDict []) (PDict []) 1 (demo_round 1 0)
        (debate_agent_init\<lparr> short_term_memory := [''summary before call 3''],
                            mid_term_memory := [''summary before call 3''] \<rparr>) 3
      = (Inr (Continue (demo_round 1 0 @ demo_round 2 3) ''summary before call 6''),
         demo_agent_after 0 debate_agent_init, 6)"
proof -
  let ?a1 = "debate_agent_init\<lparr> short_term_memory := [''summary before call 3''],
                         mid_term_memory := [''summary before call 3''] \<rparr>"
  have u0: "unconverged_rounds demo_env (PDict []) (PDict []) 0 [] ([], debate_agent_init, 0)
      ([], debate_agent_init, 0)"
    by (rule no_round)
  have u1: "unconverged_rounds demo_env (PDict []) (PDict []) (Suc 0) ([] @ [''summary before call 3''])
      ([], debate_agent_init, 0) (demo_round 1 0, ?a1, 3)"
    by (rule next_round [OF u0 demo_first_round])
  have "unconverged_rounds demo_env (PDict []) (PDict []) (Suc (Suc 0))
      (([] @ [''summary before call 3'']) @ [''summary before call 6''])
      ([], debate_agent_init, 0) (demo_round 1 0 @ demo_round 2 3, demo_agent_after 0 debate_agent_init, 6)"
    using demo_second_round [of "PDict []" "PDict []"] by (intro next_round [OF u1]) simp
  then have u2: "unconverged_rounds demo_env (PDict []) (PDict []) 2
     [''summary before call 3'', ''summary before call 6'']
     ([], debate_agent_init, 0) (demo_round 1 0 @ demo_round 2 3, demo_agent_after 0 debate_agent_init, 6)"
    by (simp add: numeral_2_eq_2)
  note inst = memory_after_unconverged_rounds [of demo_env "PDict []" "PDict []" 2
      "[''summary before call 3'', ''summary before call 6'']" "[]" debate_agent_init 0
      "demo_round 1 0 @ demo_round 2 3" "demo_agent_after 0 debate_agent_init" 6
      1 "demo_round 1 0" ?a1 3 "demo_round 1 0 @ demo_round 2 3" "''summary before call 6''"
      "demo_agent_after 0 debate_agent_init" 6]
  from inst u2 demo_second_round [of "PDict []" "PDict []"] init_memory show ?thesis
    by simp
qed

text \<open>
  Claim C8 as stated fails for a debate on an agent that has run a debate before: after the
  first round of the second debate, the mid-term memory has three entries, not one.
\<close>

theorem memory_after_unconverged_rounds_counterexample:
  "analyze demo_env demo_data debate_agent_init 0
     = (Inr (demo_result 0), demo_agent_after 0 debate_agent_init, 10)
   \<and> unconverged_rounds demo_env (PDict [(''trend'', PStr ''up'')]) (PDict [(''action'', PStr ''buy'')]) 1
       [''summary before call 13'']
       ([], demo_agent_after 0 debate_agent_init, 10)
       (demo_round 1 10,
        (demo_agent_after 0 debate_agent_init)
          \<lparr> short_term_memory := [''summary before call 13''],
            mid_term_memory := [''summary before call 3'', ''summary before call 6'',
                                ''summary before call 13''] \<rparr>,
        13)
   \<and> length (mid_term_memory
        ((demo_agent_after 0 debate_agent_init)
          \<lparr> short_term_memory := [''summary before call 13''],
            mid_term_memory := [''summary before call 3'', ''summary before call 6'',
                                ''summary before call 13''] \<rparr>)) = 3
   \<and> length (mid_term_memory
        ((demo_agent_after 0 debate_agent_init)
          \<lparr> short_term_memory := [''summary before call 13''],
            mid_term_memory := [''summary before call 3'', ''summary before call 6'',
                                ''summary before call 13''] \<rparr>)) \<noteq> 1"
proof -
  have run: "analyze demo_env demo_data debate_agent_init 0
     = (Inr (demo_result 0), demo_agent_after 0 debate_agent_init, 10)"
    using demo_analyze [OF demo_init, of 0] by simp
  have u0: "unconverged_rounds demo_env (PDict [(''trend'', PStr ''up'')]) (PDict [(''action'', PStr ''buy'')])
      0 [] ([], demo_agent_after 0 debate_agent_init, 10) ([], demo_agent_after 0 debate_agent_init, 10)"
    by (rule no_round)
  have "unconverged_rounds demo_env (PDict [(''trend'', PStr ''up'')]) (PDict [(''action'', PStr ''buy'')])
      (Suc 0) ([] @ [''summary before call 13''])
      ([], demo_agent_after 0 debate_agent_init, 10)
      (demo_round 1 10,
        (demo_agent_after 0 debate_agent_init)
          \<lparr> short_term_memory := [''summary before call 13''],
            mid_term_memory := [''summary before call 3'', ''summary before call 6'',
                                ''summary before call 13''] \<rparr>,
        13)"
    by (rule next_round [OF u0 demo_later_round])
  with run show ?thesis by simp
qed

lemma demo_analyze_second:
  "analyze demo_env demo_data (demo_agent_after 0 debate_agent_init) 10
     = (Inr (demo_result 10), demo_agent_after 10 (demo_agent_after 0 debate_agent_init), 20)"
proof -
  have p1: "roles (demo_agent_after 0 debate_agent_init) = roles debate_agent_init"
    by (rule demo_after)
  have p2: "self_debate_rounds (demo_agent_after 0 debate_agent_init) = 3"
    unfolding demo_after by (rule demo_init)
  have p3: "(10::nat) = 0 \<or> (10::nat) = 10" by simp
  have e: "(10::nat) + 10 = 20" by simp
  show ?thesis
    using demo_analyze [OF p1 p2 p3] unfolding e .
qed

lemma analyze_runs_debate:
  assumes "analyze E data self g = (res, self', g')"
  shows "\<exists>r g1. conduct_debate E (dict_get data ''market_data'' (PDict []))
           (dict_get data ''proposed_action'' (PDict [])) self g = (r, self', g1)"
proof -
  obtain r s1 g1 where cd: "conduct_debate E (dict_get data ''market_data'' (PDict []))
           (dict_get data ''proposed_action'' (PDict [])) self g = (r, s1, g1)"
    by (cases "conduct_debate E (dict_get data ''market_data'' (PDict []))
           (dict_get data ''proposed_action'' (PDict [])) self g")
  have "fst (snd (analyze E data self g)) = s1"
    unfolding analyze_def Let_def cd
    by (simp split: prod.split sum.split pyval.split)
  with assms have "self' = s1" by simp
  with cd show ?thesis by blast
qed

text \<open>
  Claim C1, as amended. The two memories are empty on a newly constructed agent.
  \<open>analyze\<close> runs the debate on the agent as it finds it and does not reset them: the
  mid-term memory at the call is an initial segment of the mid-term memory after it.
\<close>

theorem memory_kept_across_analyze:
  "mid_term_memory debate_agent_init = [] \<and> short_term_memory debate_agent_init = []
   \<and> (analyze E data self g = (res, self', g') \<longrightarrow>
        (\<exists>r g1. conduct_debate E (dict_get data ''market_data'' (PDict []))
                  (dict_get data ''proposed_action'' (PDict [])) self g = (r, self', g1))
        \<and> prefix (mid_term_memory self) (mid_term_memory self')
        \<and> roles self' = roles self \<and> self_debate_rounds self' = self_debate_rounds self)"
proof (intro conjI impI)
  show "mid_term_memory debate_agent_init = []" "short_term_memory debate_agent_init = []"
    by (rule init_memory)+
next
  assume a: "analyze E data self g = (res, self', g')"
  from analyze_runs_debate [OF a]
  show c: "\<exists>r g1. conduct_debate E (dict_get data ''market_data'' (PDict []))
                  (dict_get data ''proposed_action'' (PDict [])) self g = (r, self', g1)" .
  then obtain r g1 where cd: "conduct_debate E (dict_get data ''market_data'' (PDict []))
      (dict_get data ''proposed_action'' (PDict [])) self g = (r, self', g1)"
    by (elim exE)
  from debate_loop_agent [OF cd [unfolded conduct_debate_def]]
  show "prefix (mid_term_memory self) (mid_term_memory self')" "roles self' = roles self"
    "self_debate_rounds self' = self_debate_rounds self"
    by simp_all
qed

text \<open>
  The second call of the example: it keeps the two summaries of the first call.
\<close>

theorem memory_kept_across_analyze_witness:
  "analyze demo_env demo_data (demo_agent_after 0 debate_agent_init) 10
     = (Inr (demo_result 10), demo_agent_after 10 (demo_agent_after 0 debate_agent_init), 20)
   \<and> prefix [''summary before call 3'', ''summary before call 6'']
        [''summary before call 3'', ''summary before call 6'', ''summary before call 13'',
         ''summary before call 16'']
   \<and> prefix (mid_term_memory (demo_agent_after 0 debate_agent_init))
        (mid_term_memory (demo_agent_after 10 (demo_agent_after 0 debate_agent_init)))"
proof -
  have run: "analyze demo_env demo_data (demo_agent_after 0 debate_agent_init) 10
     = (Inr (demo_result 10), demo_agent_after 10 (demo_agent_after 0 debate_agent_init), 20)"
    by (rule demo_analyze_second)
  from memory_kept_across_analyze [of demo_env demo_data "demo_agent_after 0 debate_agent_init" 10
      "Inr (demo_result 10)" "demo_agent_after 10 (demo_agent_after 0 debate_agent_init)" 20] run
  show ?thesis by (simp add: demo_memory_first demo_memory_second)
qed

text \<open>
  Claim C1 as stated fails: after a first call of \<open>analyze\<close> on a new agent, both
  memories are not empty, the prompts of the second call embed them, and the second call
  leaves the summaries of both calls in the mid-term memory.
\<close>

theorem analyze_memory_reset_counterexample:
  "analyze demo_env demo_data debate_agent_init 0
     = (Inr (demo_result 0), demo_agent_after 0 debate_agent_init, 10)
   \<and> mid_term_memory (demo_agent_after 0 debate_agent_init)
       = [''summary before call 3'', ''summary before call 6'']
   \<and> short_term_memory (demo_agent_after 0 debate_agent_init) = [''summary before call 6'']
   \<and> get_mid_term_info (demo_agent_after 0 debate_agent_init)
       = ''summary before call 3 | summary before call 6''
   \<and> get_short_term_info (demo_agent_after 0 debate_agent_init) = ''summary before call 6''
   \<and> analyze demo_env demo_data (demo_agent_after 0 debate_agent_init) 10
       = (Inr (demo_result 10), demo_agent_after 10 (demo_agent_after 0 debate_agent_init), 20)
   \<and> mid_term_memory (demo_agent_after 10 (demo_agent_after 0 debate_agent_init))
       = [''summary before call 3'', ''summary before call 6'', ''summary before call 13'',
          ''summary before call 16'']"
proof -
  have run1: "analyze demo_env demo_data debate_agent_init 0
     = (Inr (demo_result 0), demo_agent_after 0 debate_agent_init, 10)"
    using demo_analyze [OF demo_init, of 0] by simp
  have run2: "analyze demo_env demo_data (demo_agent_after 0 debate_agent_init) 10
     = (Inr (demo_result 10), demo_agent_after 10 (demo_agent_after 0 debate_agent_init), 20)"
    by (rule demo_analyze_second)
  have info: "get_mid_term_info (demo_agent_after 0 debate_agent_init)
       = ''summary before call 3 | summary before call 6''"
    "get_short_term_info (demo_agent_after 0 debate_agent_init) = ''summary before call 6''"
    by (simp_all add: get_mid_term_info_def get_short_term_info_def demo_memory_first)
  from run1 run2 info demo_memory_first demo_memory_second show ?thesis by simp
qed

end
